theory Spec2Isabelle
  imports Main "HOL-Library.Char_ord" "HOL-Library.List_Lexorder"
begin

section \<open>WorkMonitor: the repository list, its configuration file and the front-ends\<close>

text \<open>
  The development embeds \<^verbatim>\<open>monitorWork_server.py\<close> (the Flask server) and
  \<^verbatim>\<open>monitorWork.py\<close> (the Tk GUI). Both keep a list of repository entries in one JSON
  file and shell out to \<^verbatim>\<open>startWork\<close>, \<^verbatim>\<open>stopWork\<close> and \<^verbatim>\<open>tabulateWork\<close>.

  The Python code works on loose JSON values (\<^verbatim>\<open>dict\<close>, \<^verbatim>\<open>list\<close>, \<^verbatim>\<open>str\<close>, ...), so the
  model does too: a handler receives the parsed request body as a \<open>json\<close> value and every
  attribute, subscript or iteration that Python would refuse is an exception of the model.
\<close>

subsection \<open>JSON values as Python sees them\<close>

text \<open>
  The values \<^verbatim>\<open>json.load\<close> and \<^verbatim>\<open>request.json\<close> produce. A JSON object is a Python
  \<^verbatim>\<open>dict\<close>, kept as an association list in insertion order (\<open>map_of\<close> looks a key up).
  Numbers are integers; floating-point numbers are outside the model. A \<open>string\<close> is a Python
  \<^verbatim>\<open>str\<close> whose code points are below 256.
\<close>

datatype json =
    JNull
  | JBool bool
  | JNum int
  | JStr string
  | JList "json list"
  | JObj "(string \<times> json) list"

datatype py_exc =
    AttributeError
  | KeyError
  | TypeError
  | UnicodeDecodeError
  | OSError

text \<open>\<^verbatim>\<open>not v\<close>: the falsy values are None, False, 0, the empty string, list and dict.\<close>

fun py_falsy :: "json \<Rightarrow> bool" where
  "py_falsy JNull = True"
| "py_falsy (JBool b) = (\<not> b)"
| "py_falsy (JNum n) = (n = 0)"
| "py_falsy (JStr s) = (s = [])"
| "py_falsy (JList xs) = (xs = [])"
| "py_falsy (JObj kvs) = (kvs = [])"

text \<open>\<^verbatim>\<open>data.get(key, default)\<close>: only a dict has \<^verbatim>\<open>get\<close>.\<close>

fun py_get :: "json \<Rightarrow> string \<Rightarrow> json \<Rightarrow> py_exc + json" where
  "py_get (JObj kvs) k d = Inr (case map_of kvs k of Some v \<Rightarrow> v | None \<Rightarrow> d)"
| "py_get _ k d = Inl AttributeError"

text \<open>
  \<^verbatim>\<open>r[key]\<close> with a string key: a dict without the key raises KeyError; a list or a string
  wants integer indices, and None, booleans and numbers are not subscriptable (TypeError).
\<close>

fun py_getitem :: "json \<Rightarrow> string \<Rightarrow> py_exc + json" where
  "py_getitem (JObj kvs) k = (case map_of kvs k of Some v \<Rightarrow> Inr v | None \<Rightarrow> Inl KeyError)"
| "py_getitem _ k = Inl TypeError"

text \<open>
  \<^verbatim>\<open>for x in v\<close>: a list yields its elements, a string its characters (as strings of length
  one), a dict its keys; nothing else is iterable.
\<close>

fun py_iter :: "json \<Rightarrow> py_exc + json list" where
  "py_iter (JList xs) = Inr xs"
| "py_iter (JStr s) = Inr (map (\<lambda>c. JStr [c]) s)"
| "py_iter (JObj kvs) = Inr (map (\<lambda>kv. JStr (fst kv)) kvs)"
| "py_iter _ = Inl TypeError"

text \<open>\<^verbatim>\<open>v.append(x)\<close>: only a list has \<^verbatim>\<open>append\<close>.\<close>

fun py_append :: "json \<Rightarrow> json \<Rightarrow> py_exc + json" where
  "py_append (JList xs) x = Inr (JList (xs @ [x]))"
| "py_append _ x = Inl AttributeError"

text \<open>
  \<^verbatim>\<open>a == b\<close> on JSON values. \<^verbatim>\<open>bool\<close> is a subclass of \<^verbatim>\<open>int\<close>, so \<^verbatim>\<open>True == 1\<close>;
  lists compare element by element; dicts compare by key set and value, whatever the
  order of insertion.
\<close>

function py_eq :: "json \<Rightarrow> json \<Rightarrow> bool" where
  "py_eq JNull b = (b = JNull)"
| "py_eq (JBool x) b =
     (case b of JBool y \<Rightarrow> x = y | JNum n \<Rightarrow> n = (if x then 1 else 0) | _ \<Rightarrow> False)"
| "py_eq (JNum m) b =
     (case b of JNum n \<Rightarrow> m = n | JBool y \<Rightarrow> m = (if y then 1 else 0) | _ \<Rightarrow> False)"
| "py_eq (JStr s) b = (b = JStr s)"
| "py_eq (JList xs) b =
     (case b of JList ys \<Rightarrow> list_all2 py_eq xs ys | _ \<Rightarrow> False)"
| "py_eq (JObj kvs) b =
     (case b of
        JObj kws \<Rightarrow>
          set (map fst kvs) = set (map fst kws) \<and>
          list_all (\<lambda>kv. case map_of kws (fst kv) of Some w \<Rightarrow> py_eq (snd kv) w | None \<Rightarrow> False) kvs
      | _ \<Rightarrow> False)"
  by pat_completeness auto
termination
proof (relation "measure (\<lambda>(a, b). size a)")
  show "wf (measure (\<lambda>(a, b). size a))"
    by simp
next
  fix xs ys :: "json list" and b x y :: json
  assume "x \<in> set xs"
  then have "size x < Suc (size_list size xs)"
    by (induction xs) auto
  then show "((x, y), (JList xs, b)) \<in> measure (\<lambda>(a, b). size a)"
    by simp
next
  fix kvs kws :: "(string \<times> json) list" and b w :: json and kv :: "string \<times> json"
  assume "kv \<in> set kvs"
  then have "size (snd kv) < Suc (size_list (size_prod (\<lambda>_. 0) size) kvs)"
    by (induction kvs) auto
  then show "((snd kv, w), (JObj kvs, b)) \<in> measure (\<lambda>(a, b). size a)"
    by simp
qed

text \<open>\<^verbatim>\<open>len(v)\<close>: lists, strings and dicts have a length.\<close>

fun py_len :: "json \<Rightarrow> py_exc + nat" where
  "py_len (JList xs) = Inr (length xs)"
| "py_len (JStr s) = Inr (length s)"
| "py_len (JObj kvs) = Inr (length kvs)"
| "py_len _ = Inl TypeError"

text \<open>
  \<^verbatim>\<open>str.strip()\<close> removes the white space at both ends. Below 256 the white-space code
  points of a Python \<^verbatim>\<open>str\<close> are 9 to 13, 28 to 32, 133 and 160.
\<close>

definition is_space :: "char \<Rightarrow> bool" where
  "is_space c = ((of_char c :: nat) \<in> {9, 10, 11, 12, 13, 28, 29, 30, 31, 32, 133, 160})"

definition py_strip :: "string \<Rightarrow> string" where
  "py_strip s = rev (dropWhile is_space (rev (dropWhile is_space s)))"

text \<open>\<^verbatim>\<open>v.strip()\<close> on a JSON value: only a string has \<^verbatim>\<open>strip\<close>.\<close>

fun py_str_strip :: "json \<Rightarrow> py_exc + string" where
  "py_str_strip (JStr s) = Inr (py_strip s)"
| "py_str_strip _ = Inl AttributeError"

text \<open>\<^verbatim>\<open>os.path.join(a, b)\<close> of \<^verbatim>\<open>posixpath\<close>, for two components.\<close>

definition path_join :: "string \<Rightarrow> string \<Rightarrow> string" where
  "path_join a b =
     (if b \<noteq> [] \<and> hd b = CHR ''/'' then b
      else if a = [] \<or> last a = CHR ''/'' then a @ b
      else a @ ''/'' @ b)"

subsection \<open>The environment\<close>

text \<open>
  What the code asks of the operating system and of the Python library, as parameters:
  \<^verbatim>\<open>os.path.abspath\<close> and \<^verbatim>\<open>os.path.expanduser\<close> (they depend on the working directory and on
  \<^verbatim>\<open>HOME\<close>), \<^verbatim>\<open>os.path.isdir\<close>, \<^verbatim>\<open>os.path.exists\<close>, \<^verbatim>\<open>os.listdir\<close> (\<open>None\<close> when it raises
  OSError), \<^verbatim>\<open>str(Path.home())\<close>, how the next write of the configuration file ends, what
  \<^verbatim>\<open>subprocess.run\<close> does with an argument vector, and whether
  \<^verbatim>\<open>datetime.strptime(s, "%Y-%m-%d")\<close> accepts a string.
\<close>

datatype write_outcome =
    MkdirFails    \<comment> \<open>\<^verbatim>\<open>CONFIG_DIR.mkdir\<close> raises OSError, outside the \<^verbatim>\<open>try\<close>\<close>
  | OpenFails     \<comment> \<open>\<^verbatim>\<open>open(CONFIG_FILE, 'w')\<close> raises IOError: the file is untouched\<close>
  | DumpFails     \<comment> \<open>IOError after the file was truncated: a partial document is left\<close>
  | WriteOk

datatype run_outcome =
    Exited int string   \<comment> \<open>return code and standard error\<close>
  | FileNotFound        \<comment> \<open>FileNotFoundError: no such command\<close>
  | TimeoutExpired
  | RunRaises py_exc    \<comment> \<open>any other exception of \<^verbatim>\<open>subprocess.run\<close>\<close>

record env =
  abspath :: "string \<Rightarrow> string"
  expanduser :: "string \<Rightarrow> string"
  isdir :: "string \<Rightarrow> bool"
  path_exists :: "string \<Rightarrow> bool"
  listdir :: "string \<Rightarrow> string list option"
  home :: string
  write_result :: write_outcome
  run :: "string list \<Rightarrow> run_outcome"
  strptime_ok :: "string \<Rightarrow> bool"

subsection \<open>The configuration file\<close>

text \<open>
  The file \<^verbatim>\<open>~/.workmonitor/repositories.json\<close>, by what \<^verbatim>\<open>CONFIG_FILE.exists()\<close>, \<^verbatim>\<open>open\<close>
  and \<^verbatim>\<open>json.load\<close> make of it. \<open>Document v\<close> is a file holding a JSON text that
  \<^verbatim>\<open>json.load\<close> reads as \<open>v\<close>; \<^verbatim>\<open>json.dump(v, f)\<close> writes such a text (the codec itself is
  the Python library's and is not modelled further).
\<close>

datatype config_file =
    Missing       \<comment> \<open>\<^verbatim>\<open>CONFIG_FILE.exists()\<close> is false\<close>
  | Unreadable    \<comment> \<open>\<^verbatim>\<open>open\<close> or \<^verbatim>\<open>read\<close> raises IOError\<close>
  | Undecodable   \<comment> \<open>the text is not JSON: \<^verbatim>\<open>json.load\<close> raises JSONDecodeError\<close>
  | BadEncoding   \<comment> \<open>the bytes are not text: \<^verbatim>\<open>read\<close> raises UnicodeDecodeError\<close>
  | Document json

text \<open>
  \<^verbatim>\<open>load_repositories\<close> (server, lines 56-65): JSONDecodeError and IOError are caught;
  UnicodeDecodeError and the AttributeError of \<^verbatim>\<open>data.get\<close> on a document that is not an
  object are not.
\<close>

fun load_repositories :: "config_file \<Rightarrow> py_exc + json" where
  "load_repositories Missing = Inr (JList [])"
| "load_repositories Unreadable = Inr (JList [])"
| "load_repositories Undecodable = Inr (JList [])"
| "load_repositories BadEncoding = Inl UnicodeDecodeError"
| "load_repositories (Document data) = py_get data ''repositories'' (JList [])"

text \<open>
  \<^verbatim>\<open>save_repositories\<close> (server, lines 67-76): the result is \<^verbatim>\<open>True\<close>, \<^verbatim>\<open>False\<close> after a
  caught IOError, or the OSError of \<^verbatim>\<open>mkdir\<close>; the second component is the file afterwards.
\<close>

fun save_repositories :: "env \<Rightarrow> json \<Rightarrow> config_file \<Rightarrow> (py_exc + bool) \<times> config_file" where
  "save_repositories env repositories file =
     (case write_result env of
        MkdirFails \<Rightarrow> (Inl OSError, file)
      | OpenFails \<Rightarrow> (Inr False, file)
      | DumpFails \<Rightarrow> (Inr False, Undecodable)
      | WriteOk \<Rightarrow> (Inr True, Document (JObj [(''repositories'', repositories)])))"

subsection \<open>The server's repository endpoints\<close>

text \<open>
  A handler maps the parsed request body and the configuration file to a response and the
  file afterwards. \<open>Success body\<close> is \<^verbatim>\<open>jsonify(body)\<close> with status 200,
  \<open>Failure code msg\<close> is \<^verbatim>\<open>jsonify({'error': msg}), code\<close>, and \<open>ServerError e\<close> is the
  status 500 that an exception \<open>e\<close> ends in, through the handler's own
  \<^verbatim>\<open>except Exception\<close> or through Flask.
\<close>

datatype response =
    Success json
  | Failure nat string
  | ServerError py_exc

definition new_entry :: "string \<Rightarrow> json" where
  "new_entry path = JObj [(''path'', JStr path), (''selected'', JBool False)]"

definition not_a_git_repository :: "string \<Rightarrow> string" where
  "not_a_git_repository path = [CHR 0x27] @ path @ [CHR 0x27] @ '' is not a git repository''"

text \<open>\<^verbatim>\<open>any(r['path'] == path for r in rs)\<close>: stops at the first match, raises at the first
  entry without a path that comes before one.\<close>

fun any_path_eq :: "json list \<Rightarrow> json \<Rightarrow> py_exc + bool" where
  "any_path_eq [] path = Inr False"
| "any_path_eq (r # rs) path =
     (case py_getitem r ''path'' of
        Inl e \<Rightarrow> Inl e
      | Inr v \<Rightarrow> if py_eq v path then Inr True else any_path_eq rs path)"

text \<open>\<^verbatim>\<open>add_repository\<close> (server, lines 162-199).\<close>

definition add_repository :: "env \<Rightarrow> bool \<Rightarrow> json \<Rightarrow> config_file \<Rightarrow> response \<times> config_file" where
  "add_repository env is_json data file =
     (if \<not> is_json then (Failure 400 ''Request must be JSON'', file)
      else if py_falsy data then (Failure 400 ''Invalid request data'', file)
      else
      (case py_get data ''path'' (JStr []) of
        Inl e \<Rightarrow> (ServerError e, file)
      | Inr raw \<Rightarrow>
      (case py_str_strip raw of
        Inl e \<Rightarrow> (ServerError e, file)
      | Inr stripped \<Rightarrow>
      (if stripped = [] then (Failure 400 ''Path is required'', file)
       else
      (let path = abspath env (expanduser env stripped) in
      (if \<not> isdir env (path_join path ''.git'')
       then (Failure 400 (not_a_git_repository path), file)
       else
      (case load_repositories file of
        Inl e \<Rightarrow> (ServerError e, file)
      | Inr repositories \<Rightarrow>
      (case py_iter repositories of
        Inl e \<Rightarrow> (ServerError e, file)
      | Inr rs \<Rightarrow>
      (case any_path_eq rs (JStr path) of
        Inl e \<Rightarrow> (ServerError e, file)
      | Inr found \<Rightarrow>
      (if found then (Failure 400 ''Repository already in list'', file)
       else
      (case py_append repositories (new_entry path) of
        Inl e \<Rightarrow> (ServerError e, file)
      | Inr repositories' \<Rightarrow>
      (case save_repositories env repositories' file of
        (Inl e, file') \<Rightarrow> (ServerError e, file')
      | (Inr saved, file') \<Rightarrow>
          (Success (JObj [(''repositories'', repositories')]), file')))))))))))))"

text \<open>\<^verbatim>\<open>[r for r in rs if r['path'] != path]\<close>.\<close>

fun filter_path_ne :: "json list \<Rightarrow> json \<Rightarrow> py_exc + json list" where
  "filter_path_ne [] path = Inr []"
| "filter_path_ne (r # rs) path =
     (case py_getitem r ''path'' of
        Inl e \<Rightarrow> Inl e
      | Inr v \<Rightarrow>
          (case filter_path_ne rs path of
             Inl e \<Rightarrow> Inl e
           | Inr rs' \<Rightarrow> Inr (if py_eq v path then rs' else r # rs')))"

text \<open>\<^verbatim>\<open>remove_repository\<close> (server, lines 201-214); no exception is caught here.\<close>

definition remove_repository :: "env \<Rightarrow> json \<Rightarrow> config_file \<Rightarrow> response \<times> config_file" where
  "remove_repository env data file =
     (case py_get data ''path'' (JStr []) of
        Inl e \<Rightarrow> (ServerError e, file)
      | Inr path \<Rightarrow>
      (if py_falsy path then (Failure 400 ''Path is required'', file)
       else
      (case load_repositories file of
        Inl e \<Rightarrow> (ServerError e, file)
      | Inr repositories \<Rightarrow>
      (case py_iter repositories of
        Inl e \<Rightarrow> (ServerError e, file)
      | Inr rs \<Rightarrow>
      (case filter_path_ne rs path of
        Inl e \<Rightarrow> (ServerError e, file)
      | Inr rs' \<Rightarrow>
      (case save_repositories env (JList rs') file of
        (Inl e, file') \<Rightarrow> (ServerError e, file')
      | (Inr saved, file') \<Rightarrow>
          (Success (JObj [(''repositories'', JList rs')]), file')))))))"

text \<open>\<^verbatim>\<open>clear_repositories\<close> (server, lines 216-229).\<close>

definition clear_repositories :: "env \<Rightarrow> config_file \<Rightarrow> response \<times> config_file" where
  "clear_repositories env file =
     (case save_repositories env (JList []) file of
        (Inl e, file') \<Rightarrow> (ServerError e, file')
      | (Inr saved, file') \<Rightarrow>
      (case load_repositories file' of
        Inl e \<Rightarrow> (ServerError e, file')
      | Inr repositories \<Rightarrow>
      (case py_len repositories of
        Inl e \<Rightarrow> (ServerError e, file')
      | Inr n \<Rightarrow>
          if n > 0 then (Failure 500 ''Failed to clear repositories'', file')
          else (Success (JObj [(''repositories'', JList []),
                               (''message'', JStr ''All repositories cleared'')]), file'))))"

text \<open>\<^verbatim>\<open>update_repositories\<close> (server, lines 286-293): the list of the request is stored as
  it comes.\<close>

definition update_repositories :: "env \<Rightarrow> json \<Rightarrow> config_file \<Rightarrow> response \<times> config_file" where
  "update_repositories env data file =
     (case py_get data ''repositories'' (JList []) of
        Inl e \<Rightarrow> (ServerError e, file)
      | Inr repositories \<Rightarrow>
      (case save_repositories env repositories file of
        (Inl e, file') \<Rightarrow> (ServerError e, file')
      | (Inr saved, file') \<Rightarrow>
          (Success (JObj [(''repositories'', repositories)]), file')))"

text \<open>
  \<^verbatim>\<open>{r['path'] for r in rs}\<close>: a set holds hashable values only, so a path that is a list
  or a dict raises TypeError. The set is asked only whether it holds a given string, which
  is the case exactly when that string was put in.
\<close>

fun py_hashable :: "json \<Rightarrow> bool" where
  "py_hashable (JList xs) = False"
| "py_hashable (JObj kvs) = False"
| "py_hashable _ = True"

fun path_set :: "json list \<Rightarrow> py_exc + json set" where
  "path_set [] = Inr {}"
| "path_set (r # rs) =
     (case py_getitem r ''path'' of
        Inl e \<Rightarrow> Inl e
      | Inr v \<Rightarrow>
          if \<not> py_hashable v then Inl TypeError
          else (case path_set rs of
                  Inl e \<Rightarrow> Inl e
                | Inr paths \<Rightarrow> Inr (insert v paths)))"

text \<open>
  The loop of \<^verbatim>\<open>batch_add_repositories\<close> (lines 253-272) over the requested paths; its
  state is \<^verbatim>\<open>repositories\<close>, \<^verbatim>\<open>existing_paths\<close>, \<^verbatim>\<open>added_count\<close> and \<^verbatim>\<open>errors\<close>.
\<close>

type_synonym batch_state = "json \<times> json set \<times> nat \<times> string list"

fun batch_loop :: "env \<Rightarrow> json list \<Rightarrow> batch_state \<Rightarrow> py_exc + batch_state" where
  "batch_loop env [] st = Inr st"
| "batch_loop env (p # ps) (repositories, existing_paths, added_count, errors) =
     (case py_str_strip p of
        Inl e \<Rightarrow> Inl e
      | Inr stripped \<Rightarrow>
      (if stripped = [] then batch_loop env ps (repositories, existing_paths, added_count, errors)
       else
      (let path = abspath env (expanduser env stripped) in
      (if \<not> isdir env (path_join path ''.git'')
       then batch_loop env ps
              (repositories, existing_paths, added_count, errors @ [not_a_git_repository path])
       else if JStr path \<in> existing_paths
       then batch_loop env ps (repositories, existing_paths, added_count, errors)
       else
      (case py_append repositories (new_entry path) of
        Inl e \<Rightarrow> Inl e
      | Inr repositories' \<Rightarrow>
          batch_loop env ps
            (repositories', insert (JStr path) existing_paths, added_count + 1, errors))))))"

text \<open>\<^verbatim>\<open>batch_add_repositories\<close> (server, lines 231-284).\<close>

definition batch_response :: "json \<Rightarrow> nat \<Rightarrow> string list \<Rightarrow> json" where
  "batch_response repositories added_count errors =
     JObj [(''repositories'', repositories),
           (''added'', JNum (int added_count)),
           (''errors'', JList (map JStr errors))]"

definition batch_add_repositories ::
  "env \<Rightarrow> bool \<Rightarrow> json \<Rightarrow> config_file \<Rightarrow> response \<times> config_file" where
  "batch_add_repositories env is_json data file =
     (if \<not> is_json then (Failure 400 ''Request must be JSON'', file)
      else if py_falsy data then (Failure 400 ''Invalid request data'', file)
      else
      (case py_get data ''paths'' (JList []) of
        Inl e \<Rightarrow> (ServerError e, file)
      | Inr repo_paths \<Rightarrow>
      (case repo_paths of
        JList ps \<Rightarrow>
      (case load_repositories file of
        Inl e \<Rightarrow> (ServerError e, file)
      | Inr repositories \<Rightarrow>
      (case py_iter repositories of
        Inl e \<Rightarrow> (ServerError e, file)
      | Inr rs \<Rightarrow>
      (case path_set rs of
        Inl e \<Rightarrow> (ServerError e, file)
      | Inr existing_paths \<Rightarrow>
      (case batch_loop env ps (repositories, existing_paths, 0, []) of
        Inl e \<Rightarrow> (ServerError e, file)
      | Inr (repositories', existing_paths', added_count, errors) \<Rightarrow>
      (case save_repositories env repositories' file of
        (Inl e, file') \<Rightarrow> (ServerError e, file')
      | (Inr saved, file') \<Rightarrow>
          (Success (batch_response repositories' added_count errors), file'))))))
      | _ \<Rightarrow> (Failure 400 ''Paths must be a list'', file))))"

subsection \<open>The GUI's repository list\<close>

text \<open>
  The GUI keeps the list in memory (\<^verbatim>\<open>self.repositories\<close>) and writes it after each change.
  A callback yields the dialogs it showed, or the exception that ended it (Tk reports it
  and goes on), together with the list in memory and the file afterwards. Redrawing the
  tree (\<^verbatim>\<open>update_repo_list\<close>) changes neither and is left out.
\<close>

datatype dialog =
    ShowError string
  | ShowWarning string
  | ShowInfo string

type_synonym gui_result = "(py_exc + dialog list) \<times> json \<times> config_file"

text \<open>\<^verbatim>\<open>WorkMonitorGUI.load_repositories\<close> (lines 388-398) assigns what the server's
  function returns.\<close>

definition gui_load_repositories :: "config_file \<Rightarrow> py_exc + json" where
  "gui_load_repositories file = load_repositories file"

text \<open>
  \<^verbatim>\<open>WorkMonitorGUI.save_repositories\<close> (lines 400-407): a caught IOError is shown (the
  text of the exception after the colon is not modelled).
\<close>

fun gui_save_repositories :: "env \<Rightarrow> json \<Rightarrow> config_file \<Rightarrow> (py_exc + dialog list) \<times> config_file" where
  "gui_save_repositories env repositories file =
     (case write_result env of
        MkdirFails \<Rightarrow> (Inl OSError, file)
      | OpenFails \<Rightarrow> (Inr [ShowError ''Failed to save repositories''], file)
      | DumpFails \<Rightarrow> (Inr [ShowError ''Failed to save repositories''], Undecodable)
      | WriteOk \<Rightarrow> (Inr [], Document (JObj [(''repositories'', repositories)])))"

text \<open>
  \<^verbatim>\<open>WorkMonitorGUI.add_repository\<close> (lines 203-228). \<open>chosen\<close> is what the directory
  dialog returned (empty when cancelled) and \<open>typed\<close> what the text dialog returned
  (\<open>None\<close> when cancelled); the text dialog is asked only when the first gave nothing.
\<close>

definition gui_add_repository ::
  "env \<Rightarrow> string \<Rightarrow> string option \<Rightarrow> json \<Rightarrow> config_file \<Rightarrow> gui_result" where
  "gui_add_repository env chosen typed repositories file =
     (let answer = (if chosen = [] then typed else Some chosen) in
      (case answer of
        None \<Rightarrow> (Inr [], repositories, file)
      | Some given \<Rightarrow>
      (if given = [] then (Inr [], repositories, file)
       else
      (let path = abspath env given in
      (if \<not> isdir env (path_join path ''.git'')
       then (Inr [ShowError (not_a_git_repository path @ ''.'')], repositories, file)
       else
      (case py_iter repositories of
        Inl e \<Rightarrow> (Inl e, repositories, file)
      | Inr rs \<Rightarrow>
      (case any_path_eq rs (JStr path) of
        Inl e \<Rightarrow> (Inl e, repositories, file)
      | Inr found \<Rightarrow>
      (if found then (Inr [ShowWarning ''Repository already in list.''], repositories, file)
       else
      (case py_append repositories (new_entry path) of
        Inl e \<Rightarrow> (Inl e, repositories, file)
      | Inr repositories' \<Rightarrow>
      (case gui_save_repositories env repositories' file of
        (shown, file') \<Rightarrow> (shown, repositories', file')))))))))))"

text \<open>
  \<^verbatim>\<open>WorkMonitorGUI.remove_repository\<close> (lines 230-244). \<open>selected_paths\<close> are the path
  values of the selected rows of the tree; the list is filtered once for each of them.
\<close>

fun gui_remove_loop :: "string list \<Rightarrow> json \<Rightarrow> py_exc option \<times> json" where
  "gui_remove_loop [] repositories = (None, repositories)"
| "gui_remove_loop (path # paths) repositories =
     (case py_iter repositories of
        Inl e \<Rightarrow> (Some e, repositories)
      | Inr rs \<Rightarrow>
      (case filter_path_ne rs (JStr path) of
        Inl e \<Rightarrow> (Some e, repositories)
      | Inr rs' \<Rightarrow> gui_remove_loop paths (JList rs')))"

definition gui_remove_repository ::
  "env \<Rightarrow> string list \<Rightarrow> json \<Rightarrow> config_file \<Rightarrow> gui_result" where
  "gui_remove_repository env selected_paths repositories file =
     (if selected_paths = []
      then (Inr [ShowWarning ''Please select a repository to remove.''], repositories, file)
      else
      (case gui_remove_loop selected_paths repositories of
        (Some e, repositories') \<Rightarrow> (Inl e, repositories', file)
      | (None, repositories') \<Rightarrow>
      (case gui_save_repositories env repositories' file of
        (shown, file') \<Rightarrow> (shown, repositories', file'))))"

subsection \<open>startWork and stopWork\<close>

text \<open>
  \<^verbatim>\<open>start_work\<close> and \<^verbatim>\<open>stop_work\<close> differ, in both files, only in the command and in the
  wording of the messages. Beside its answer each operation yields the argument vectors it
  handed to \<^verbatim>\<open>subprocess.run\<close>, in order: the commands it attempted.
\<close>

datatype work_cmd = StartWork | StopWork

fun cmd_name :: "work_cmd \<Rightarrow> string" where
  "cmd_name StartWork = ''startWork''"
| "cmd_name StopWork = ''stopWork''"

definition command_not_found :: "string \<Rightarrow> string" where
  "command_not_found name =
     name @ '' command not found. Please ensure it's installed and in your PATH.''"

definition work_response :: "string list \<Rightarrow> string list \<Rightarrow> json" where
  "work_response results errors =
     JObj [(''success'', JNum (int (length results))),
           (''errors'', JList (map JStr errors)),
           (''results'', JList (map JStr results))]"

text \<open>
  The loop of the server's \<^verbatim>\<open>start_work\<close> (lines 307-322) and \<^verbatim>\<open>stop_work\<close> (lines
  342-357). An element that is not a string makes \<^verbatim>\<open>subprocess.run\<close> raise TypeError.
\<close>

fun work_loop ::
  "env \<Rightarrow> work_cmd \<Rightarrow> json list \<Rightarrow> string list \<Rightarrow> string list \<Rightarrow> response \<times> string list list" where
  "work_loop env cmd [] results errors = (Success (work_response results errors), [])"
| "work_loop env cmd (r # rs) results errors =
     (case r of
        JStr repo_path \<Rightarrow>
          (case run env [cmd_name cmd, repo_path] of
             Exited returncode stderr \<Rightarrow>
               (case (if returncode \<noteq> 0
                      then work_loop env cmd rs results (errors @ [repo_path @ '': '' @ stderr])
                      else work_loop env cmd rs (results @ [repo_path]) errors) of
                  (resp, attempted) \<Rightarrow> (resp, [cmd_name cmd, repo_path] # attempted))
           | FileNotFound \<Rightarrow>
               (Failure 500 (command_not_found (cmd_name cmd)), [[cmd_name cmd, repo_path]])
           | TimeoutExpired \<Rightarrow>
               (case work_loop env cmd rs results (errors @ [repo_path @ '': Timeout'']) of
                  (resp, attempted) \<Rightarrow> (resp, [cmd_name cmd, repo_path] # attempted))
           | RunRaises e \<Rightarrow> (ServerError e, [[cmd_name cmd, repo_path]]))
      | _ \<Rightarrow> (ServerError TypeError, []))"

definition server_work :: "env \<Rightarrow> work_cmd \<Rightarrow> json \<Rightarrow> response \<times> string list list" where
  "server_work env cmd data =
     (case py_get data ''repositories'' (JList []) of
        Inl e \<Rightarrow> (ServerError e, [])
      | Inr repositories \<Rightarrow>
      (if py_falsy repositories then (Failure 400 ''No repositories selected'', [])
       else
      (case py_iter repositories of
        Inl e \<Rightarrow> (ServerError e, [])
      | Inr rs \<Rightarrow> work_loop env cmd rs [] [])))"

definition start_work :: "env \<Rightarrow> json \<Rightarrow> response \<times> string list list" where
  "start_work env data = server_work env StartWork data"

definition stop_work :: "env \<Rightarrow> json \<Rightarrow> response \<times> string list list" where
  "stop_work env data = server_work env StopWork data"

text \<open>
  \<^verbatim>\<open>get_selected_repositories\<close> (GUI, lines 260-262):
  \<^verbatim>\<open>[r['path'] for r in self.repositories if r.get('selected', False)]\<close>.
\<close>

fun selected_of :: "json list \<Rightarrow> py_exc + json list" where
  "selected_of [] = Inr []"
| "selected_of (r # rs) =
     (case py_get r ''selected'' (JBool False) of
        Inl e \<Rightarrow> Inl e
      | Inr flag \<Rightarrow>
      (if py_falsy flag then selected_of rs
       else
      (case py_getitem r ''path'' of
        Inl e \<Rightarrow> Inl e
      | Inr path \<Rightarrow>
      (case selected_of rs of
        Inl e \<Rightarrow> Inl e
      | Inr paths \<Rightarrow> Inr (path # paths)))))"

definition get_selected_repositories :: "json \<Rightarrow> py_exc + json list" where
  "get_selected_repositories repositories =
     (case py_iter repositories of
        Inl e \<Rightarrow> Inl e
      | Inr rs \<Rightarrow> selected_of rs)"

text \<open>The decimal digits of \<^verbatim>\<open>len(selected)\<close> in an f-string.\<close>

fun show_nat :: "nat \<Rightarrow> string" where
  "show_nat n =
     (if n < 10 then [char_of (48 + n)]
      else show_nat (n div 10) @ [char_of (48 + n mod 10)])"

fun gui_failed :: "work_cmd \<Rightarrow> string \<Rightarrow> string \<Rightarrow> string" where
  "gui_failed StartWork repo_path stderr =
     ''Failed to start work on '' @ repo_path @ '':'' @ [CHR 0x0A] @ stderr"
| "gui_failed StopWork repo_path stderr =
     ''Failed to stop work on '' @ repo_path @ '':'' @ [CHR 0x0A] @ stderr"

fun gui_timeout :: "work_cmd \<Rightarrow> string \<Rightarrow> string" where
  "gui_timeout StartWork repo_path = ''Timeout starting work on '' @ repo_path"
| "gui_timeout StopWork repo_path = ''Timeout stopping work on '' @ repo_path"

fun gui_done :: "work_cmd \<Rightarrow> nat \<Rightarrow> string" where
  "gui_done StartWork n = ''Started work on '' @ show_nat n @ '' repository(ies).''"
| "gui_done StopWork n = ''Stopped work on '' @ show_nat n @ '' repository(ies).''"

text \<open>How a callback of the GUI ends: it runs to its last line, returns early, or an
  exception leaves it.\<close>

datatype callback_end = Finished | Returned | Raised py_exc

text \<open>
  The loop of the GUI's \<^verbatim>\<open>start_work\<close> (lines 286-306) and \<^verbatim>\<open>stop_work\<close> (lines
  317-337): the dialogs shown, how the loop ended, the commands attempted.
\<close>

fun gui_work_loop ::
  "env \<Rightarrow> work_cmd \<Rightarrow> json list \<Rightarrow> dialog list \<times> callback_end \<times> string list list" where
  "gui_work_loop env cmd [] = ([], Finished, [])"
| "gui_work_loop env cmd (r # rs) =
     (case r of
        JStr repo_path \<Rightarrow>
          (case run env [cmd_name cmd, repo_path] of
             Exited returncode stderr \<Rightarrow>
               (case gui_work_loop env cmd rs of
                  (shown, ended, attempted) \<Rightarrow>
                    ((if returncode \<noteq> 0 then [ShowError (gui_failed cmd repo_path stderr)] else [])
                       @ shown,
                     ended, [cmd_name cmd, repo_path] # attempted))
           | FileNotFound \<Rightarrow>
               ([ShowError (command_not_found (cmd_name cmd))], Returned,
                [[cmd_name cmd, repo_path]])
           | TimeoutExpired \<Rightarrow>
               (case gui_work_loop env cmd rs of
                  (shown, ended, attempted) \<Rightarrow>
                    (ShowError (gui_timeout cmd repo_path) # shown,
                     ended, [cmd_name cmd, repo_path] # attempted))
           | RunRaises e \<Rightarrow> ([], Raised e, [[cmd_name cmd, repo_path]]))
      | _ \<Rightarrow> ([], Raised TypeError, []))"

definition gui_work ::
  "env \<Rightarrow> work_cmd \<Rightarrow> json \<Rightarrow> dialog list \<times> callback_end \<times> string list list" where
  "gui_work env cmd repositories =
     (case get_selected_repositories repositories of
        Inl e \<Rightarrow> ([], Raised e, [])
      | Inr selected \<Rightarrow>
      (if selected = []
       then ([ShowWarning ''Please select at least one repository.''], Returned, [])
       else
      (case gui_work_loop env cmd selected of
        (shown, ended, attempted) \<Rightarrow>
          (if ended = Finished
           then (shown @ [ShowInfo (gui_done cmd (length selected))], Finished, attempted)
           else (shown, ended, attempted)))))"

definition gui_start_work :: "env \<Rightarrow> json \<Rightarrow> dialog list \<times> callback_end \<times> string list list" where
  "gui_start_work env repositories = gui_work env StartWork repositories"

definition gui_stop_work :: "env \<Rightarrow> json \<Rightarrow> dialog list \<times> callback_end \<times> string list list" where
  "gui_stop_work env repositories = gui_work env StopWork repositories"

subsection \<open>tabulateWork\<close>

definition invalid_date_format :: string where
  "invalid_date_format = ''Invalid date format. Please use YYYY-MM-DD format.''"

text \<open>The elements of \<^verbatim>\<open>cmd\<close> must be strings for \<^verbatim>\<open>subprocess.run\<close>.\<close>

fun strings_of :: "json list \<Rightarrow> string list option" where
  "strings_of [] = Some []"
| "strings_of (r # rs) =
     (case r of
        JStr x \<Rightarrow> (case strings_of rs of Some xs \<Rightarrow> Some (x # xs) | None \<Rightarrow> None)
      | _ \<Rightarrow> None)"

definition tabulate_cmd :: "string \<Rightarrow> string \<Rightarrow> string \<Rightarrow> string list \<Rightarrow> string list" where
  "tabulate_cmd output_file start_date end_date repositories =
     [''tabulateWork'', ''-o'', output_file, start_date, end_date] @ repositories"

text \<open>
  \<^verbatim>\<open>tabulate_work\<close> (server, lines 365-416). \<^verbatim>\<open>datetime.strptime\<close> raises TypeError for
  an argument that is not a string and ValueError (caught) for a string that does not
  parse; \<^verbatim>\<open>os.path.expanduser\<close> and the concatenation \<^verbatim>\<open>[...] + repositories\<close> raise
  TypeError for a value that is not a string, respectively not a list.
\<close>

definition tabulate_work :: "env \<Rightarrow> json \<Rightarrow> response \<times> string list list" where
  "tabulate_work env data =
     (case py_get data ''repositories'' (JList []) of
        Inl e \<Rightarrow> (ServerError e, [])
      | Inr repositories \<Rightarrow>
      (case py_get data ''startDate'' (JStr []) of
        Inl e \<Rightarrow> (ServerError e, [])
      | Inr start_date \<Rightarrow>
      (case py_get data ''endDate'' (JStr []) of
        Inl e \<Rightarrow> (ServerError e, [])
      | Inr end_date \<Rightarrow>
      (case py_get data ''outputFile'' (JStr []) of
        Inl e \<Rightarrow> (ServerError e, [])
      | Inr output_file \<Rightarrow>
      (if py_falsy repositories then (Failure 400 ''No repositories selected'', [])
       else if py_falsy start_date \<or> py_falsy end_date
       then (Failure 400 ''Start date and end date are required'', [])
       else
      (case start_date of
        JStr s \<Rightarrow>
      (if \<not> strptime_ok env s then (Failure 400 invalid_date_format, [])
       else
      (case end_date of
        JStr e \<Rightarrow>
      (if \<not> strptime_ok env e then (Failure 400 invalid_date_format, [])
       else if py_falsy output_file then (Failure 400 ''Output file is required'', [])
       else
      (case output_file of
        JStr out \<Rightarrow>
      (let output_path = abspath env (expanduser env out) in
      (case repositories of
        JList rs \<Rightarrow>
      (case strings_of rs of
        None \<Rightarrow> (ServerError TypeError, [])
      | Some paths \<Rightarrow>
      (let cmd = tabulate_cmd output_path s e paths in
      (case run env cmd of
        Exited returncode stderr \<Rightarrow>
          (if returncode \<noteq> 0
           then (Failure 500 (''Failed to generate work report: '' @ stderr), [cmd])
           else (Success (JObj [(''success'', JBool True),
                                (''outputFile'', JStr output_path),
                                (''message'', JStr (''Work report saved to '' @ output_path))]),
                 [cmd]))
      | FileNotFound \<Rightarrow> (Failure 500 (command_not_found ''tabulateWork''), [cmd])
      | TimeoutExpired \<Rightarrow> (Failure 500 ''Timeout generating work report'', [cmd])
      | RunRaises x \<Rightarrow> (ServerError x, [cmd]))))
      | _ \<Rightarrow> (ServerError TypeError, [])))
      | _ \<Rightarrow> (ServerError TypeError, [])))
      | _ \<Rightarrow> (ServerError TypeError, [])))
      | _ \<Rightarrow> (ServerError TypeError, [])))))))"

text \<open>
  \<^verbatim>\<open>validate_dates\<close> (GUI, lines 264-277): both entries are stripped, then parsed; the
  stripped strings are returned, or nothing after the error dialog.
\<close>

definition validate_dates :: "env \<Rightarrow> string \<Rightarrow> string \<Rightarrow> dialog list \<times> (string \<times> string) option" where
  "validate_dates env start_entry end_entry =
     (let start_date = py_strip start_entry; end_date = py_strip end_entry in
      if strptime_ok env start_date \<and> strptime_ok env end_date
      then ([], Some (start_date, end_date))
      else ([ShowError invalid_date_format], None))"

text \<open>
  \<^verbatim>\<open>WorkMonitorGUI.tabulate_work\<close> (lines 341-386). \<open>save_as\<close> is what the save dialog
  returned (empty when cancelled); it is asked only after the dates were accepted.
\<close>

definition gui_tabulate_work ::
  "env \<Rightarrow> json \<Rightarrow> string \<Rightarrow> string \<Rightarrow> string \<Rightarrow> dialog list \<times> callback_end \<times> string list list" where
  "gui_tabulate_work env repositories start_entry end_entry save_as =
     (case get_selected_repositories repositories of
        Inl e \<Rightarrow> ([], Raised e, [])
      | Inr selected \<Rightarrow>
      (if selected = []
       then ([ShowWarning ''Please select at least one repository.''], Returned, [])
       else
      (case validate_dates env start_entry end_entry of
        (shown, None) \<Rightarrow> (shown, Returned, [])
      | (shown, Some (start_date, end_date)) \<Rightarrow>
      (if start_date = [] \<or> end_date = [] then (shown, Returned, [])
       else if save_as = [] then (shown, Returned, [])
       else
      (case strings_of selected of
        None \<Rightarrow> (shown, Raised TypeError, [])
      | Some paths \<Rightarrow>
      (let cmd = tabulate_cmd save_as start_date end_date paths in
      (case run env cmd of
        Exited returncode stderr \<Rightarrow>
          (if returncode \<noteq> 0
           then (shown @ [ShowError (''Failed to generate work report:'' @ [CHR 0x0A] @ stderr)],
                 Finished, [cmd])
           else (shown @ [ShowInfo (''Work report saved to '' @ save_as)], Finished, [cmd]))
      | FileNotFound \<Rightarrow>
          (shown @ [ShowError (command_not_found ''tabulateWork'')], Finished, [cmd])
      | TimeoutExpired \<Rightarrow>
          (shown @ [ShowError ''Timeout generating work report''], Finished, [cmd])
      | RunRaises x \<Rightarrow> (shown, Raised x, [cmd]))))))))"

subsection \<open>The single-instance guard\<close>

text \<open>
  \<^verbatim>\<open>SingleInstance.__enter__\<close> (GUI lines 45-60, server lines 32-44). The lock file is
  seen through the advisory lock on it (\<open>holder\<close>: the process that holds the exclusive
  lock, if any) and its text. \<^verbatim>\<open>flock\<close> with \<^verbatim>\<open>LOCK_EX | LOCK_NB\<close> raises an OSError at
  once when the lock is held through another open file. The operating system decides
  whether \<^verbatim>\<open>mkdir\<close>, \<^verbatim>\<open>open\<close> and \<^verbatim>\<open>write\<close> succeed. \<open>Notify\<close> is the error box of
  the GUI (title and text) or the two lines the server prints; \<open>lock_path\<close> is the path of
  the lock file, \<open>pid\<close> the process that enters.
\<close>

datatype front_end = Gui | Server

record lock_file =
  holder :: "nat option"
  pid_text :: string

record lock_os =
  mkdir_ok :: bool
  open_ok :: bool
  write_ok :: bool

datatype lock_event =
    Mkdir
  | OpenForWriting
  | Flock
  | WritePid nat
  | Notify "string list"
  | SysExit nat

datatype enter_end =
    Entered             \<comment> \<open>\<^verbatim>\<open>return self\<close>: the lock is held\<close>
  | Exits nat           \<comment> \<open>\<^verbatim>\<open>sys.exit(code)\<close>\<close>
  | EnterRaises py_exc  \<comment> \<open>an exception leaves \<^verbatim>\<open>__enter__\<close>\<close>

fun already_running :: "front_end \<Rightarrow> string \<Rightarrow> string list" where
  "already_running Gui lock_path =
     [''Already Running'',
      ''monitorWork.py is already running.'' @ [CHR 0x0A] @ ''Only one instance can run at a time.'']"
| "already_running Server lock_path =
     [''Error: monitorWork_server.py is already running.'',
      ''Check if another instance is running or remove '' @ lock_path]"

definition enter ::
  "front_end \<Rightarrow> lock_os \<Rightarrow> string \<Rightarrow> nat \<Rightarrow> lock_file \<Rightarrow> enter_end \<times> lock_event list \<times> lock_file" where
  "enter fe os lock_path pid lf =
     (if \<not> mkdir_ok os then (EnterRaises OSError, [Mkdir], lf)
      else if \<not> open_ok os
      then (Exits 1, [Mkdir, OpenForWriting, Notify (already_running fe lock_path), SysExit 1], lf)
      else
      (let truncated = lf\<lparr>pid_text := []\<rparr> in
      (if holder lf \<noteq> None
       then (Exits 1,
             [Mkdir, OpenForWriting, Flock, Notify (already_running fe lock_path), SysExit 1], truncated)
       else if \<not> write_ok os
       then (Exits 1,
             [Mkdir, OpenForWriting, Flock, WritePid pid, Notify (already_running fe lock_path), SysExit 1],
             truncated\<lparr>holder := None\<rparr>)
       else (Entered, [Mkdir, OpenForWriting, Flock, WritePid pid],
             \<lparr>holder = Some pid, pid_text = show_nat pid\<rparr>))))"

subsection \<open>Scanning a folder for repositories\<close>

text \<open>\<^verbatim>\<open>os.path.dirname\<close> of \<^verbatim>\<open>posixpath\<close>.\<close>

definition dirname :: "string \<Rightarrow> string" where
  "dirname p =
     (let head = rev (dropWhile (\<lambda>c. c \<noteq> CHR ''/'') (rev p)) in
      if head \<noteq> [] \<and> \<not> list_all (\<lambda>c. c = CHR ''/'') head
      then rev (dropWhile (\<lambda>c. c = CHR ''/'') (rev head))
      else head)"

text \<open>\<^verbatim>\<open>str.lower()\<close> for code points below 256, and \<^verbatim>\<open>t in s\<close> for strings.\<close>

definition py_lower :: "string \<Rightarrow> string" where
  "py_lower s =
     map (\<lambda>c. let n = (of_char c :: nat) in
               if (65 \<le> n \<and> n \<le> 90) \<or> (192 \<le> n \<and> n \<le> 222 \<and> n \<noteq> 215)
               then char_of (n + 32) else c) s"

definition py_in :: "string \<Rightarrow> string \<Rightarrow> bool" where
  "py_in t s = list_ex (\<lambda>i. take (length t) (drop i s) = t) [0 ..< Suc (length s)]"

text \<open>\<^verbatim>\<open>"\n".join(lines)\<close>.\<close>

fun join_lines :: "string list \<Rightarrow> string" where
  "join_lines [] = []"
| "join_lines [l] = l"
| "join_lines (l # ls) = l @ [CHR 0x0A] @ join_lines ls"

text \<open>The suggestions for a path that does not exist (lines 109-120); whatever is raised
  while they are collected is swallowed.\<close>

definition suggested_paths :: "env \<Rightarrow> string \<Rightarrow> string list" where
  "suggested_paths env parent_dir =
     (if isdir env parent_dir
      then (case listdir env parent_dir of
              None \<Rightarrow> []
            | Some items \<Rightarrow>
                map (path_join parent_dir)
                  (filter (\<lambda>item. isdir env (path_join parent_dir item) \<and>
                                   py_in ''git'' (py_lower item)) items))
      else [])"

definition path_does_not_exist :: "string \<Rightarrow> string list \<Rightarrow> string" where
  "path_does_not_exist folder_path suggested =
     ''Path does not exist: '' @ [CHR 0x27] @ folder_path @ [CHR 0x27] @
     (if suggested \<noteq> []
      then [CHR 0x0A] @ ''Did you mean one of these?'' @ [CHR 0x0A] @
           join_lines (map (\<lambda>p. ''  - '' @ p) (take 5 suggested))
      else [])"

definition access_denied :: string where
  "access_denied = ''Access denied: Cannot scan outside home directory''"

text \<open>
  \<^verbatim>\<open>scan_repositories\<close> (server, lines 83-154). Beside the response the model yields the
  directories handed to \<^verbatim>\<open>os.listdir\<close>, in order. The text of the OSError in the second
  403 answer is not modelled.
\<close>

definition scan_repositories :: "env \<Rightarrow> bool \<Rightarrow> json \<Rightarrow> response \<times> string list" where
  "scan_repositories env is_json data =
     (if \<not> is_json then (Failure 400 ''Request must be JSON'', [])
      else if py_falsy data then (Failure 400 ''Invalid request data'', [])
      else
      (case py_get data ''folderPath'' (JStr []) of
        Inl e \<Rightarrow> (ServerError e, [])
      | Inr raw \<Rightarrow>
      (case py_str_strip raw of
        Inl e \<Rightarrow> (ServerError e, [])
      | Inr stripped \<Rightarrow>
      (if stripped = [] then (Failure 400 ''Folder path is required'', [])
       else
      (let folder_path = abspath env (expanduser env stripped) in
      (if take (length (home env)) folder_path \<noteq> home env
       then (Failure 403 access_denied, [])
       else if \<not> path_exists env folder_path
       then (Failure 400
               (path_does_not_exist folder_path (suggested_paths env (dirname folder_path))),
             (if isdir env (dirname folder_path) then [dirname folder_path] else []))
       else if \<not> isdir env folder_path
       then (Failure 400
               (''Path is not a directory: '' @ [CHR 0x27] @ folder_path @ [CHR 0x27]), [])
       else
      (case listdir env folder_path of
        None \<Rightarrow> (Failure 403 ''Cannot access directory'', [folder_path])
      | Some items \<Rightarrow>
          (Success
             (JObj [(''folderPath'', JStr folder_path),
                    (''repositories'',
                     JList (map (\<lambda>item. JObj [(''name'', JStr item),
                                                (''path'', JStr (path_join folder_path item))])
                              (sort_key (\<lambda>item. item)
                                 (filter (\<lambda>item. isdir env (path_join folder_path item) \<and>
                                                  isdir env (path_join (path_join folder_path item) ''.git''))
                                    items))))]),
           [folder_path]))))))))"

subsection \<open>A sample environment\<close>

text \<open>
  A machine to evaluate the operations on: the user \<^verbatim>\<open>u\<close> with home \<^verbatim>\<open>/home/u\<close>, two
  repositories \<^verbatim>\<open>proj\<close> and \<^verbatim>\<open>work\<close> and a plain folder \<^verbatim>\<open>notes\<close> in it, the working
  directory \<^verbatim>\<open>/srv/app\<close>, commands that succeed, writes that succeed.
\<close>

definition sample_dirs :: "string list" where
  "sample_dirs =
     [''/'', ''/home'', ''/home/u'', ''/home/u/proj'', ''/home/u/proj/.git'',
      ''/home/u/work'', ''/home/u/work/.git'', ''/home/u/notes'', ''/srv'', ''/srv/app'']"

definition is_digit :: "char \<Rightarrow> bool" where
  "is_digit c = (48 \<le> (of_char c :: nat) \<and> (of_char c :: nat) \<le> 57)"

fun digits_value :: "string \<Rightarrow> nat" where
  "digits_value ds = foldl (\<lambda>n c. 10 * n + ((of_char c :: nat) - 48)) 0 ds"

fun split_dash :: "string \<Rightarrow> string list" where
  "split_dash [] = [[]]"
| "split_dash (c # cs) =
     (if c = CHR ''-'' then [] # split_dash cs
      else (case split_dash cs of [] \<Rightarrow> [[c]] | w # ws \<Rightarrow> (c # w) # ws))"

definition days_in_month :: "nat \<Rightarrow> nat \<Rightarrow> nat" where
  "days_in_month y m =
     (if m = 2 then (if y mod 4 = 0 \<and> (y mod 100 \<noteq> 0 \<or> y mod 400 = 0) then 29 else 28)
      else if m \<in> {4, 6, 9, 11} then 30 else 31)"

text \<open>
  The sample machine's \<^verbatim>\<open>strptime(s, "%Y-%m-%d")\<close>, as Python's on strings of code points
  below 256: four digits, a dash, one or two digits, a dash, one or two digits (or a blank
  and a digit), naming a day of the calendar from year 1 on.
\<close>

definition sample_strptime_ok :: "string \<Rightarrow> bool" where
  "sample_strptime_ok s =
     (case split_dash s of
        [y, m, d] \<Rightarrow>
          (let dd = (if length d = 2 \<and> hd d = CHR '' '' then tl d else d) in
           length y = 4 \<and> list_all is_digit y \<and>
           length m \<in> {1, 2} \<and> list_all is_digit m \<and>
           length dd \<in> {1, 2} \<and> list_all is_digit dd \<and>
           1 \<le> digits_value y \<and>
           1 \<le> digits_value m \<and> digits_value m \<le> 12 \<and>
           1 \<le> digits_value dd \<and>
           digits_value dd \<le> days_in_month (digits_value y) (digits_value m))
      | _ \<Rightarrow> False)"

definition sample_env :: env where
  "sample_env =
     \<lparr> abspath = (\<lambda>p. if p = [] then ''/srv/app''
                      else if hd p = CHR ''/'' then p
                      else path_join ''/srv/app'' p),
       expanduser = (\<lambda>p. if p = ''~'' then ''/home/u''
                         else if take 2 p = ''~/'' then ''/home/u'' @ drop 1 p
                         else p),
       isdir = (\<lambda>p. p \<in> set sample_dirs),
       path_exists = (\<lambda>p. p \<in> set sample_dirs),
       listdir = (\<lambda>p. if p = ''/home/u'' then Some [''work'', ''notes'', ''proj'']
                      else if p \<in> set sample_dirs then Some []
                      else None),
       home = ''/home/u'',
       write_result = WriteOk,
       run = (\<lambda>argv. Exited 0 []),
       strptime_ok = sample_strptime_ok \<rparr>"

subsection \<open>Notions the properties are stated with\<close>

text \<open>
  The schema of the configuration file, from section 6 of the specification: one object
  whose key \<^verbatim>\<open>repositories\<close> holds a sequence of entries, each with a string \<^verbatim>\<open>path\<close> and
  a boolean \<^verbatim>\<open>selected\<close>.
\<close>

definition schema_entry :: "json \<Rightarrow> bool" where
  "schema_entry r =
     (case r of
        JObj kvs \<Rightarrow>
          (case (map_of kvs ''path'', map_of kvs ''selected'') of
             (Some (JStr p), Some (JBool b)) \<Rightarrow> True
           | _ \<Rightarrow> False)
      | _ \<Rightarrow> False)"

definition schema_list :: "json \<Rightarrow> bool" where
  "schema_list repositories =
     (case repositories of JList rs \<Rightarrow> list_all schema_entry rs | _ \<Rightarrow> False)"

definition schema_document :: "json \<Rightarrow> bool" where
  "schema_document data =
     (case data of
        JObj kvs \<Rightarrow>
          (case map_of kvs ''repositories'' of
             Some repositories \<Rightarrow> schema_list repositories
           | None \<Rightarrow> False)
      | _ \<Rightarrow> False)"

text \<open>
  The \<^verbatim>\<open>path\<close> values of the entries of a list, in order (an entry without one has none),
  and the uniqueness invariant of section 3: no two entries share a \<^verbatim>\<open>path\<close> value. For
  the file it is read on the list that \<^verbatim>\<open>load_repositories\<close> returns.
\<close>

definition entry_path :: "json \<Rightarrow> json option" where
  "entry_path r = (case py_getitem r ''path'' of Inr v \<Rightarrow> Some v | Inl e \<Rightarrow> None)"

definition stored_paths :: "json \<Rightarrow> json list" where
  "stored_paths repositories =
     (case py_iter repositories of
        Inr rs \<Rightarrow> List.map_filter entry_path rs
      | Inl e \<Rightarrow> [])"

definition paths_distinct :: "json \<Rightarrow> bool" where
  "paths_distinct repositories = distinct (stored_paths repositories)"

definition file_paths_distinct :: "config_file \<Rightarrow> bool" where
  "file_paths_distinct file =
     (case load_repositories file of
        Inr repositories \<Rightarrow> paths_distinct repositories
      | Inl e \<Rightarrow> True)"

text \<open>Every entry has a \<^verbatim>\<open>path\<close> and none of them equals the given value.\<close>

definition no_entry_matches :: "json list \<Rightarrow> json \<Rightarrow> bool" where
  "no_entry_matches rs path =
     list_all (\<lambda>r. case py_getitem r ''path'' of Inr v \<Rightarrow> \<not> py_eq v path | Inl e \<Rightarrow> False) rs"

text \<open>The absolute form the server gives a requested path, and the test for a
  repository, as \<^verbatim>\<open>add_repository\<close> and \<^verbatim>\<open>batch_add_repositories\<close> compute them.\<close>

definition server_path :: "env \<Rightarrow> string \<Rightarrow> string" where
  "server_path env s = abspath env (expanduser env (py_strip s))"

definition has_git :: "env \<Rightarrow> string \<Rightarrow> bool" where
  "has_git env path = isdir env (path_join path ''.git'')"

text \<open>
  For the batch operations: a run that ends (with any return code) or times out, as
  opposed to a command that is not there or another exception; a run that times out; the
  argument vectors of one attempt for each path.
\<close>

definition runs_or_times_out :: "env \<Rightarrow> work_cmd \<Rightarrow> string \<Rightarrow> bool" where
  "runs_or_times_out env cmd repo_path =
     (case run env [cmd_name cmd, repo_path] of
        Exited returncode stderr \<Rightarrow> True
      | TimeoutExpired \<Rightarrow> True
      | _ \<Rightarrow> False)"

definition timed_out :: "env \<Rightarrow> work_cmd \<Rightarrow> string \<Rightarrow> bool" where
  "timed_out env cmd repo_path = (run env [cmd_name cmd, repo_path] = TimeoutExpired)"

definition attempts :: "work_cmd \<Rightarrow> string list \<Rightarrow> string list list" where
  "attempts cmd paths = map (\<lambda>repo_path. [cmd_name cmd, repo_path]) paths"

text \<open>
  What a finished batch has to report, path by path: the server lists a path under
  \<^verbatim>\<open>results\<close> when its run returned 0 and puts a line into \<^verbatim>\<open>errors\<close> when the run
  returned something else or timed out; the GUI shows an error dialog in those two cases.
\<close>

definition succeeded :: "env \<Rightarrow> work_cmd \<Rightarrow> string \<Rightarrow> bool" where
  "succeeded env cmd repo_path =
     (case run env [cmd_name cmd, repo_path] of
        Exited returncode stderr \<Rightarrow> returncode = 0
      | _ \<Rightarrow> False)"

definition error_line :: "env \<Rightarrow> work_cmd \<Rightarrow> string \<Rightarrow> string option" where
  "error_line env cmd repo_path =
     (case run env [cmd_name cmd, repo_path] of
        Exited returncode stderr \<Rightarrow>
          if returncode \<noteq> 0 then Some (repo_path @ '': '' @ stderr) else None
      | TimeoutExpired \<Rightarrow> Some (repo_path @ '': Timeout'')
      | _ \<Rightarrow> None)"

definition error_dialog :: "env \<Rightarrow> work_cmd \<Rightarrow> string \<Rightarrow> dialog option" where
  "error_dialog env cmd repo_path =
     (case run env [cmd_name cmd, repo_path] of
        Exited returncode stderr \<Rightarrow>
          if returncode \<noteq> 0 then Some (ShowError (gui_failed cmd repo_path stderr)) else None
      | TimeoutExpired \<Rightarrow> Some (ShowError (gui_timeout cmd repo_path))
      | _ \<Rightarrow> None)"

text \<open>The sample machine without the commands installed, and one on which
  \<^verbatim>\<open>startWork\<close> hangs for \<^verbatim>\<open>proj\<close> and fails for \<^verbatim>\<open>notes\<close>.\<close>

definition missing_env :: env where
  "missing_env = sample_env\<lparr>run := (\<lambda>argv. FileNotFound)\<rparr>"

definition slow_env :: env where
  "slow_env = sample_env\<lparr>run := (\<lambda>argv. if argv = [''startWork'', ''/home/u/proj'']
                                           then TimeoutExpired
                                           else if argv = [''startWork'', ''/home/u/notes'']
                                           then Exited 1 ''not a git repository''
                                           else Exited 0 [])\<rparr>"

section \<open>Properties\<close>

text \<open>The equations that evaluate an operation on the sample machine.\<close>

lemmas sample_eval =
  sample_env_def sample_dirs_def py_strip_def is_space_def path_join_def new_entry_def
  not_a_git_repository_def Let_def

subsection \<open>Loading and saving\<close>

text \<open>
  Claim C6. Saving a list to the configuration file and loading it again returns the list
  that was saved, in the server and in the GUI, whenever the write goes through. It holds
  for every JSON value, hence for every list of the schema.
\<close>

theorem save_then_load_identity:
  assumes "write_result env = WriteOk"
  shows "fst (save_repositories env repositories file) = Inr True
       \<and> load_repositories (snd (save_repositories env repositories file)) = Inr repositories
       \<and> gui_load_repositories (snd (gui_save_repositories env repositories file))
           = Inr repositories"
  using assms by (simp add: gui_load_repositories_def)

text \<open>Witness for C6: the sample machine, an empty start, one entry saved.\<close>

theorem save_then_load_identity_witness:
  "write_result sample_env = WriteOk
   \<and> schema_list (JList [new_entry ''/home/u/proj''])
   \<and> load_repositories
         (snd (save_repositories sample_env (JList [new_entry ''/home/u/proj'']) Missing))
       = Inr (JList [new_entry ''/home/u/proj''])"
  using save_then_load_identity [of sample_env "JList [new_entry ''/home/u/proj'']" Missing]
  by (simp add: sample_env_def schema_list_def schema_entry_def new_entry_def)

text \<open>
  Claim C3, as stated, fails: a file that is valid JSON but not of the schema (here an
  entry without \<^verbatim>\<open>selected\<close>) is loaded as it is, not as the empty list.
\<close>

theorem load_unchecked_counterexample:
  "\<not> schema_document (JObj [(''repositories'', JList [JObj [(''path'', JStr ''/home/u/proj'')]])])
   \<and> load_repositories
         (Document (JObj [(''repositories'', JList [JObj [(''path'', JStr ''/home/u/proj'')]])]))
       = Inr (JList [JObj [(''path'', JStr ''/home/u/proj'')]])
   \<and> JList [JObj [(''path'', JStr ''/home/u/proj'')]] \<noteq> JList []"
  by (simp add: schema_document_def schema_list_def schema_entry_def)

text \<open>
  Claim C3, amended. A file that is missing, that cannot be read, that is not JSON, or
  that is a JSON object without the key \<^verbatim>\<open>repositories\<close> loads as the empty list; the
  value under \<^verbatim>\<open>repositories\<close> of any other JSON object is returned unchecked.
\<close>

theorem load_recovers_empty:
  "(file = Missing \<or> file = Unreadable \<or> file = Undecodable \<or>
     (\<exists>kvs. file = Document (JObj kvs) \<and> map_of kvs ''repositories'' = None)
    \<longrightarrow> load_repositories file = Inr (JList []) \<and> gui_load_repositories file = Inr (JList []))
   \<and> (map_of kvs ''repositories'' = Some v
    \<longrightarrow> load_repositories (Document (JObj kvs)) = Inr v
      \<and> gui_load_repositories (Document (JObj kvs)) = Inr v)"
  by (auto simp: gui_load_repositories_def)

text \<open>Witness for C3: a file that is not JSON, and a document holding the number 5.\<close>

theorem load_recovers_empty_witness:
  "load_repositories Undecodable = Inr (JList [])
   \<and> map_of [(''repositories'', JNum 5)] ''repositories'' = Some (JNum 5)
   \<and> load_repositories (Document (JObj [(''repositories'', JNum 5)])) = Inr (JNum 5)"
  using load_recovers_empty [of Undecodable "[(''repositories'', JNum 5)]" "JNum 5"]
  by simp

subsection \<open>The uniqueness invariant\<close>

text \<open>Comparing with a string, Python's equality is identity of JSON values.\<close>

lemma py_eq_JStr: "py_eq v (JStr p) = (v = JStr p)"
  by (cases v) auto

lemma map_filter_append: "List.map_filter f (xs @ ys) = List.map_filter f xs @ List.map_filter f ys"
  by (simp add: List.map_filter_def)

lemma entry_path_new_entry: "entry_path (new_entry p) = Some (JStr p)"
  by (simp add: entry_path_def new_entry_def)

lemma map_filter_new_entries: "List.map_filter entry_path (map new_entry new) = map JStr new"
  by (induction new) (simp_all add: List.map_filter_simps entry_path_new_entry)

lemma stored_paths_extend:
  "stored_paths (JList (rs @ map new_entry new)) = stored_paths (JList rs) @ map JStr new"
  by (simp add: stored_paths_def map_filter_append map_filter_new_entries)

lemma any_path_eq_False:
  "any_path_eq rs (JStr p) = Inr False \<Longrightarrow> JStr p \<notin> set (List.map_filter entry_path rs)"
  by (induction rs)
     (auto simp: List.map_filter_simps entry_path_def py_eq_JStr split: sum.splits if_splits)

lemma py_append_JList:
  "py_append repos x = Inr repos' \<Longrightarrow> \<exists>rs. repos = JList rs \<and> repos' = JList (rs @ [x])"
  by (cases repos) auto

lemma paths_distinct_empty: "paths_distinct (JList [])"
  by (simp add: paths_distinct_def stored_paths_def List.map_filter_simps)

lemma save_keeps_distinct:
  "file_paths_distinct file \<Longrightarrow> paths_distinct repos \<Longrightarrow>
   file_paths_distinct (snd (save_repositories env repos file))"
  by (cases "write_result env") (simp_all add: file_paths_distinct_def paths_distinct_empty)

lemma gui_save_keeps_distinct:
  "file_paths_distinct file \<Longrightarrow> paths_distinct repos \<Longrightarrow>
   file_paths_distinct (snd (gui_save_repositories env repos file))"
  by (cases "write_result env") (simp_all add: file_paths_distinct_def paths_distinct_empty)

lemma filter_path_ne_filter:
  "filter_path_ne rs p = Inr rs' \<Longrightarrow>
   rs' = filter (\<lambda>r. case py_getitem r ''path'' of Inr v \<Rightarrow> \<not> py_eq v p | Inl e \<Rightarrow> True) rs"
  by (induction rs arbitrary: rs') (auto split: sum.splits if_splits)

lemma set_map_filter_filter:
  "set (List.map_filter f (filter P xs)) \<subseteq> set (List.map_filter f xs)"
  by (auto simp: List.map_filter_def)

lemma distinct_map_filter_filter:
  "distinct (List.map_filter f xs) \<Longrightarrow> distinct (List.map_filter f (filter P xs))"
proof (induction xs)
  case Nil
  then show ?case by simp
next
  case (Cons x xs)
  show ?case
  proof (cases "f x")
    case None
    with Cons show ?thesis by (simp add: List.map_filter_simps)
  next
    case (Some y)
    with Cons.prems have "y \<notin> set (List.map_filter f xs)" "distinct (List.map_filter f xs)"
      by (simp_all add: List.map_filter_simps)
    with Cons.IH Some set_map_filter_filter [of f P xs] show ?thesis
      by (auto simp: List.map_filter_simps)
  qed
qed

lemma filter_path_ne_distinct:
  "filter_path_ne rs p = Inr rs' \<Longrightarrow> paths_distinct (JList rs) \<Longrightarrow> paths_distinct (JList rs')"
  by (auto simp: paths_distinct_def stored_paths_def dest!: filter_path_ne_filter
           intro: distinct_map_filter_filter)

lemma path_set_eq: "path_set rs = Inr ex \<Longrightarrow> ex = set (List.map_filter entry_path rs)"
  by (induction rs arbitrary: ex)
     (auto simp: List.map_filter_simps entry_path_def split: sum.splits if_splits)

lemma batch_loop_shape:
  "batch_loop env ps (repos, ex, a, errs) = Inr (repos', ex', a', errs') \<Longrightarrow>
   \<exists>new. distinct new \<and> (\<forall>p \<in> set new. JStr p \<notin> ex) \<and> ex' = ex \<union> JStr ` set new
       \<and> a' = a + length new
       \<and> ((new = [] \<and> repos' = repos)
          \<or> (\<exists>rs. repos = JList rs \<and> repos' = JList (rs @ map new_entry new)))"
proof (induction ps arbitrary: repos ex a errs)
  case Nil
  then show ?case by (intro exI [of _ "[]"]) simp
next
  case (Cons p ps)
  from Cons.prems obtain stripped where st: "py_str_strip p = Inr stripped"
    by (auto split: sum.splits)
  define path where "path = abspath env (expanduser env stripped)"
  show ?case
  proof (cases "stripped = [] \<or> \<not> isdir env (path_join path ''.git'') \<or> JStr path \<in> ex")
    case True
    then obtain errs1 where "batch_loop env ps (repos, ex, a, errs1) = Inr (repos', ex', a', errs')"
      using Cons.prems st by (auto simp: path_def Let_def split: if_splits)
    from Cons.IH [OF this] show ?thesis .
  next
    case False
    with Cons.prems st obtain repos1 where
      ap: "py_append repos (new_entry path) = Inr repos1" and
      rest: "batch_loop env ps (repos1, insert (JStr path) ex, a + 1, errs) = Inr (repos', ex', a', errs')"
      by (auto simp: path_def Let_def split: if_splits sum.splits)
    from py_append_JList [OF ap] obtain rs where
      rs: "repos = JList rs" "repos1 = JList (rs @ [new_entry path])" by blast
    from Cons.IH [OF rest] obtain new where new:
      "distinct new" "\<forall>p \<in> set new. JStr p \<notin> insert (JStr path) ex"
      "ex' = insert (JStr path) ex \<union> JStr ` set new" "a' = a + 1 + length new"
      "(new = [] \<and> repos' = repos1) \<or> (\<exists>rs. repos1 = JList rs \<and> repos' = JList (rs @ map new_entry new))"
      by blast
    have "repos' = JList (rs @ map new_entry (path # new))"
      using new(5) rs by auto
    moreover have "distinct (path # new)" using new(1,2) by auto
    moreover have "\<forall>p \<in> set (path # new). JStr p \<notin> ex" using new(2) False by auto
    moreover have "ex' = ex \<union> JStr ` set (path # new)" using new(3) by auto
    moreover have "a' = a + length (path # new)" using new(4) by simp
    ultimately show ?thesis using rs(1) by (intro exI [of _ "path # new"]) blast
  qed
qed

lemma batch_loop_distinct:
  assumes "batch_loop env ps (repos, ex, a, errs) = Inr (repos', ex', a', errs')"
    and "paths_distinct repos" and "ex = set (stored_paths repos)"
  shows "paths_distinct repos'"
proof -
  from batch_loop_shape [OF assms(1)] obtain new where new:
    "distinct new" "\<forall>p \<in> set new. JStr p \<notin> ex"
    "(new = [] \<and> repos' = repos) \<or> (\<exists>rs. repos = JList rs \<and> repos' = JList (rs @ map new_entry new))"
    by blast
  from new(3) show ?thesis
  proof
    assume "new = [] \<and> repos' = repos"
    with assms(2) show ?thesis by simp
  next
    assume "\<exists>rs. repos = JList rs \<and> repos' = JList (rs @ map new_entry new)"
    then obtain rs where rs: "repos = JList rs" "repos' = JList (rs @ map new_entry new)" by blast
    have "distinct (map JStr new)" using new(1) by (simp add: distinct_map inj_on_def)
    then show ?thesis
      using assms(2,3) new(2) rs
      by (auto simp: paths_distinct_def stored_paths_extend)
  qed
qed


lemma save_result_keeps_distinct:
  "save_repositories env repos file = (r, file') \<Longrightarrow> file_paths_distinct file \<Longrightarrow>
   paths_distinct repos \<Longrightarrow> file_paths_distinct file'"
  using save_keeps_distinct [where env = env and repos = repos] by fastforce

lemma gui_save_result_keeps_distinct:
  "gui_save_repositories env repos file = (r, file') \<Longrightarrow> file_paths_distinct file \<Longrightarrow>
   paths_distinct repos \<Longrightarrow> file_paths_distinct file'"
  using gui_save_keeps_distinct [where env = env and repos = repos] by fastforce

lemma loaded_distinct:
  "file_paths_distinct file \<Longrightarrow> load_repositories file = Inr repos \<Longrightarrow> paths_distinct repos"
  by (simp add: file_paths_distinct_def)

lemma append_new_distinct:
  assumes "py_iter repos = Inr rs" "any_path_eq rs (JStr path) = Inr False"
    "py_append repos (new_entry path) = Inr repos'" "paths_distinct repos"
  shows "paths_distinct repos'"
proof -
  from py_append_JList [OF assms(3)] obtain rs0 where
    rs0: "repos = JList rs0" "repos' = JList (rs0 @ [new_entry path])" by blast
  with assms(1) have "rs0 = rs" by simp
  with rs0 assms(4) any_path_eq_False [OF assms(2)]
    stored_paths_extend [of rs "[path]"]
  show ?thesis by (simp add: paths_distinct_def stored_paths_def)
qed

lemma add_keeps_distinct:
  "file_paths_distinct file \<Longrightarrow> file_paths_distinct (snd (add_repository env j data file))"
  by (auto simp: add_repository_def Let_def simp del: save_repositories.simps
           split: sum.splits if_splits prod.splits
           dest: save_result_keeps_distinct loaded_distinct append_new_distinct)

lemma iter_distinct:
  "py_iter repos = Inr rs \<Longrightarrow> paths_distinct repos \<Longrightarrow> paths_distinct (JList rs)"
  by (simp add: paths_distinct_def stored_paths_def)

lemma remove_keeps_distinct:
  "file_paths_distinct file \<Longrightarrow> file_paths_distinct (snd (remove_repository env data file))"
proof -
  assume inv: "file_paths_distinct file"
  have core: "file_paths_distinct file'"
    if "load_repositories file = Inr repos" "py_iter repos = Inr rs"
       "filter_path_ne rs path = Inr rs'" "save_repositories env (JList rs') file = (r, file')"
    for repos rs path rs' r file'
  proof -
    have "paths_distinct (JList rs)"
      using loaded_distinct [OF inv that(1)] that(2) by (rule iter_distinct [rotated])
    then have "paths_distinct (JList rs')" using that(3) by (blast dest: filter_path_ne_distinct)
    with that(4) inv show ?thesis by (blast dest: save_result_keeps_distinct)
  qed
  show ?thesis
    using inv
    by (auto simp: remove_repository_def simp del: save_repositories.simps
             split: sum.splits if_splits prod.splits dest: core)
qed

lemma clear_keeps_distinct:
  "file_paths_distinct file \<Longrightarrow> file_paths_distinct (snd (clear_repositories env file))"
  by (auto simp: clear_repositories_def simp del: save_repositories.simps
           split: sum.splits if_splits prod.splits
           dest: save_result_keeps_distinct [OF _ _ paths_distinct_empty])

lemma batch_keeps_distinct:
  "file_paths_distinct file \<Longrightarrow>
   file_paths_distinct (snd (batch_add_repositories env j data file))"
proof -
  assume inv: "file_paths_distinct file"
  have core: "file_paths_distinct file'"
    if "load_repositories file = Inr repos" "py_iter repos = Inr rs" "path_set rs = Inr ex"
       "batch_loop env ps (repos, ex, 0, []) = Inr (repos', ex', a', errs')"
       "save_repositories env repos' file = (r, file')"
    for repos rs ex ps repos' ex' a' errs' r file'
  proof -
    have "paths_distinct repos" using inv that(1) by (rule loaded_distinct)
    moreover have "ex = set (stored_paths repos)"
      using path_set_eq [OF that(3)] that(2) by (simp add: stored_paths_def)
    ultimately have "paths_distinct repos'" using batch_loop_distinct [OF that(4)] by blast
    with that(5) inv show ?thesis by (blast dest: save_result_keeps_distinct)
  qed
  show ?thesis
    using inv
    by (auto simp: batch_add_repositories_def simp del: save_repositories.simps batch_loop.simps
             split: sum.splits if_splits prod.splits json.splits
             dest: core)
qed

lemma update_keeps_distinct:
  "file_paths_distinct file \<Longrightarrow>
   (case py_get data ''repositories'' (JList []) of
      Inr submitted \<Rightarrow> paths_distinct submitted | Inl e \<Rightarrow> True) \<Longrightarrow>
   file_paths_distinct (snd (update_repositories env data file))"
  by (auto simp: update_repositories_def simp del: save_repositories.simps
           split: sum.splits if_splits prod.splits
           dest: save_result_keeps_distinct)

lemma gui_add_keeps_distinct:
  "file_paths_distinct file \<Longrightarrow> paths_distinct repos \<Longrightarrow>
   paths_distinct (fst (snd (gui_add_repository env chosen typed repos file))) \<and>
   file_paths_distinct (snd (snd (gui_add_repository env chosen typed repos file)))"
  by (auto simp: gui_add_repository_def Let_def simp del: gui_save_repositories.simps
           split: sum.splits if_splits prod.splits option.splits
           dest: gui_save_result_keeps_distinct append_new_distinct)

text \<open>
  Claim C1, as stated, fails for the update endpoint: it stores the list of the request
  as it comes, so a request with the same path twice breaks the invariant.
\<close>

theorem update_stores_duplicates_counterexample:
  "file_paths_distinct Missing
   \<and> \<not> file_paths_distinct
         (snd (update_repositories sample_env
                 (JObj [(''repositories'',
                         JList [new_entry ''/home/u/proj'', new_entry ''/home/u/proj''])])
                 Missing))"
  by (simp add: file_paths_distinct_def paths_distinct_def stored_paths_def
        update_repositories_def sample_env_def new_entry_def entry_path_def
        List.map_filter_simps)

text \<open>
  Claim C1, amended. Server add, batch-add, remove and clear and the GUI's add keep the
  paths of the stored list pairwise distinct (the GUI's list in memory too); the update
  endpoint keeps them distinct when the list it is sent has pairwise distinct paths.
\<close>

theorem writers_keep_paths_distinct:
  assumes "file_paths_distinct file"
  shows "file_paths_distinct (snd (add_repository env is_json data file))
       \<and> file_paths_distinct (snd (batch_add_repositories env is_json data file))
       \<and> file_paths_distinct (snd (remove_repository env data file))
       \<and> file_paths_distinct (snd (clear_repositories env file))
       \<and> (paths_distinct repositories \<longrightarrow>
            paths_distinct (fst (snd (gui_add_repository env chosen typed repositories file)))
            \<and> file_paths_distinct
                (snd (snd (gui_add_repository env chosen typed repositories file))))
       \<and> ((\<forall>submitted. py_get data ''repositories'' (JList []) = Inr submitted
                        \<longrightarrow> paths_distinct submitted)
            \<longrightarrow> file_paths_distinct (snd (update_repositories env data file)))"
proof -
  have "file_paths_distinct (snd (update_repositories env data file))"
    if "\<forall>submitted. py_get data ''repositories'' (JList []) = Inr submitted
                     \<longrightarrow> paths_distinct submitted"
    using assms that by (intro update_keeps_distinct) (auto split: sum.splits)
  with assms show ?thesis
    by (simp add: add_keeps_distinct batch_keeps_distinct remove_keeps_distinct
          clear_keeps_distinct gui_add_keeps_distinct)
qed

text \<open>Witness for C1: one repository stored, the other one added through the server.\<close>

theorem writers_keep_paths_distinct_witness:
  "file_paths_distinct (Document (JObj [(''repositories'', JList [new_entry ''/home/u/proj''])]))
   \<and> snd (add_repository sample_env True (JObj [(''path'', JStr ''~/work'')])
            (Document (JObj [(''repositories'', JList [new_entry ''/home/u/proj''])])))
       = Document (JObj [(''repositories'',
                          JList [new_entry ''/home/u/proj'', new_entry ''/home/u/work''])])
   \<and> file_paths_distinct
         (snd (add_repository sample_env True (JObj [(''path'', JStr ''~/work'')])
                 (Document (JObj [(''repositories'', JList [new_entry ''/home/u/proj''])]))))"
proof -
  have inv: "file_paths_distinct
               (Document (JObj [(''repositories'', JList [new_entry ''/home/u/proj''])]))"
    by (simp add: file_paths_distinct_def paths_distinct_def stored_paths_def
          new_entry_def entry_path_def List.map_filter_simps)
  have run: "snd (add_repository sample_env True (JObj [(''path'', JStr ''~/work'')])
                    (Document (JObj [(''repositories'', JList [new_entry ''/home/u/proj''])])))
             = Document (JObj [(''repositories'',
                                JList [new_entry ''/home/u/proj'', new_entry ''/home/u/work''])])"
    by (simp add: add_repository_def sample_eval)
  from writers_keep_paths_distinct [OF inv, of sample_env True "JObj [(''path'', JStr ''~/work'')]"]
  show ?thesis using inv run by simp
qed

subsection \<open>Adding a path that is already there\<close>

text \<open>
  What the loop of the batch endpoint does with a list of strings: it never fails, the
  paths it appends are the absolute forms of the requested repositories that were not yet
  there, each once, and it reports the requested paths that are not repositories.
\<close>

lemma batch_loop_strings:
  "\<exists>new. batch_loop env (map JStr ss) (JList rs, ex, a, errs) =
            Inr (JList (rs @ map new_entry new), ex \<union> JStr ` set new, a + length new,
                 errs @ map (\<lambda>s. not_a_git_repository (server_path env s))
                          (filter (\<lambda>s. py_strip s \<noteq> [] \<and> \<not> has_git env (server_path env s)) ss))
         \<and> distinct new
         \<and> set new = {server_path env s | s. s \<in> set ss \<and> py_strip s \<noteq> []
                                              \<and> has_git env (server_path env s)}
                      - {p. JStr p \<in> ex}"
proof (induction ss arbitrary: rs ex a errs)
  case Nil
  show ?case by (intro exI [of _ "[]"]) simp
next
  case (Cons s ss)
  let ?path = "server_path env s"
  consider (blank) "py_strip s = []"
    | (nogit) "py_strip s \<noteq> []" "\<not> has_git env ?path"
    | (present) "py_strip s \<noteq> []" "has_git env ?path" "JStr ?path \<in> ex"
    | (fresh) "py_strip s \<noteq> []" "has_git env ?path" "JStr ?path \<notin> ex"
    by blast
  then show ?case
  proof cases
    case blank
    from Cons.IH [of rs ex a errs] obtain new where new:
      "batch_loop env (map JStr ss) (JList rs, ex, a, errs) =
         Inr (JList (rs @ map new_entry new), ex \<union> JStr ` set new, a + length new,
              errs @ map (\<lambda>s. not_a_git_repository (server_path env s))
                       (filter (\<lambda>s. py_strip s \<noteq> [] \<and> \<not> has_git env (server_path env s)) ss))"
      "distinct new"
      "set new = {server_path env s | s. s \<in> set ss \<and> py_strip s \<noteq> []
                                          \<and> has_git env (server_path env s)} - {p. JStr p \<in> ex}"
      by blast
    show ?thesis
      using blank new by (intro exI [of _ new]) auto
  next
    case nogit
    from Cons.IH [of rs ex a "errs @ [not_a_git_repository ?path]"] obtain new where new:
      "batch_loop env (map JStr ss) (JList rs, ex, a, errs @ [not_a_git_repository ?path]) =
         Inr (JList (rs @ map new_entry new), ex \<union> JStr ` set new, a + length new,
              (errs @ [not_a_git_repository ?path]) @ map (\<lambda>s. not_a_git_repository (server_path env s))
                       (filter (\<lambda>s. py_strip s \<noteq> [] \<and> \<not> has_git env (server_path env s)) ss))"
      "distinct new"
      "set new = {server_path env s | s. s \<in> set ss \<and> py_strip s \<noteq> []
                                          \<and> has_git env (server_path env s)} - {p. JStr p \<in> ex}"
      by blast
    show ?thesis
      using nogit new by (intro exI [of _ new]) (auto simp: server_path_def has_git_def Let_def)
  next
    case present
    from Cons.IH [of rs ex a errs] obtain new where new:
      "batch_loop env (map JStr ss) (JList rs, ex, a, errs) =
         Inr (JList (rs @ map new_entry new), ex \<union> JStr ` set new, a + length new,
              errs @ map (\<lambda>s. not_a_git_repository (server_path env s))
                       (filter (\<lambda>s. py_strip s \<noteq> [] \<and> \<not> has_git env (server_path env s)) ss))"
      "distinct new"
      "set new = {server_path env s | s. s \<in> set ss \<and> py_strip s \<noteq> []
                                          \<and> has_git env (server_path env s)} - {p. JStr p \<in> ex}"
      by blast
    show ?thesis
      using present new by (intro exI [of _ new]) (auto simp: server_path_def has_git_def Let_def)
  next
    case fresh
    from Cons.IH [of "rs @ [new_entry ?path]" "insert (JStr ?path) ex" "a + 1" errs]
    obtain new where new:
      "batch_loop env (map JStr ss) (JList (rs @ [new_entry ?path]), insert (JStr ?path) ex, a + 1, errs) =
         Inr (JList ((rs @ [new_entry ?path]) @ map new_entry new),
              insert (JStr ?path) ex \<union> JStr ` set new, a + 1 + length new,
              errs @ map (\<lambda>s. not_a_git_repository (server_path env s))
                       (filter (\<lambda>s. py_strip s \<noteq> [] \<and> \<not> has_git env (server_path env s)) ss))"
      "distinct new"
      "set new = {server_path env s | s. s \<in> set ss \<and> py_strip s \<noteq> []
                                          \<and> has_git env (server_path env s)}
                 - {p. JStr p \<in> insert (JStr ?path) ex}"
      by blast
    have "batch_loop env (map JStr (s # ss)) (JList rs, ex, a, errs) =
            Inr (JList (rs @ map new_entry (?path # new)), ex \<union> JStr ` set (?path # new),
                 a + length (?path # new),
                 errs @ map (\<lambda>s. not_a_git_repository (server_path env s))
                          (filter (\<lambda>s. py_strip s \<noteq> [] \<and> \<not> has_git env (server_path env s)) (s # ss)))"
      using fresh new(1) by (simp add: server_path_def has_git_def Let_def)
    moreover have "distinct (?path # new)" using new(2,3) by auto
    moreover have "set (?path # new)
        = {server_path env t | t. t \<in> set (s # ss) \<and> py_strip t \<noteq> []
                                    \<and> has_git env (server_path env t)} - {p. JStr p \<in> ex}"
      using new(3) fresh by auto
    ultimately show ?thesis by (intro exI [of _ "?path # new"]) blast
  qed
qed

lemma path_set_append_new:
  "path_set rs = Inr ex \<Longrightarrow> path_set (rs @ map new_entry new) = Inr (ex \<union> JStr ` set new)"
proof (induction rs arbitrary: ex)
  case Nil
  then show ?case
    by (induction new) (auto simp: new_entry_def)
next
  case (Cons r rs)
  then show ?case by (auto split: sum.splits if_splits)
qed


lemma batch_loop_nothing_new:
  assumes "\<forall>s \<in> set ss. JStr (server_path env s) \<in> ex"
  shows "\<exists>errs'. batch_loop env (map JStr ss) (JList rs, ex, a, errs) = Inr (JList rs, ex, a, errs')"
proof -
  from batch_loop_strings [of env ss rs ex a errs] obtain new where new:
    "batch_loop env (map JStr ss) (JList rs, ex, a, errs) =
       Inr (JList (rs @ map new_entry new), ex \<union> JStr ` set new, a + length new,
            errs @ map (\<lambda>s. not_a_git_repository (server_path env s))
                     (filter (\<lambda>s. py_strip s \<noteq> [] \<and> \<not> has_git env (server_path env s)) ss))"
    "set new = {server_path env s | s. s \<in> set ss \<and> py_strip s \<noteq> []
                                        \<and> has_git env (server_path env s)} - {p. JStr p \<in> ex}"
    by blast
  from new(2) assms have "set new = {}" by auto
  then have "new = []" by simp
  with new(1) show ?thesis by simp
qed

lemma any_path_eq_not_False:
  "JStr p \<in> set (List.map_filter entry_path rs) \<Longrightarrow> any_path_eq rs (JStr p) \<noteq> Inr False"
  using any_path_eq_False by blast

lemma any_path_eq_True:
  "list_all (\<lambda>r. entry_path r \<noteq> None) rs \<Longrightarrow> JStr p \<in> set (List.map_filter entry_path rs) \<Longrightarrow>
   any_path_eq rs (JStr p) = Inr True"
  by (induction rs)
     (auto simp: List.map_filter_simps entry_path_def py_eq_JStr split: sum.splits if_splits)

lemma path_set_eq_stored:
  "path_set rs = Inr ex \<Longrightarrow> ex = set (stored_paths (JList rs))"
  by (simp add: stored_paths_def path_set_eq)

text \<open>
  Claim C5. A path whose absolute form is the \<^verbatim>\<open>path\<close> of an entry is not added. The
  server's add answers with an error and does not touch the file (with a well-formed
  request and list the error is \<^verbatim>\<open>Repository already in list\<close>); the GUI's add leaves its
  list and the file as they are (and warns); the batch endpoint, given only such paths,
  either fails without touching the file or answers with the unchanged list and
  \<^verbatim>\<open>added\<close> 0, having saved that same list again.
\<close>

theorem add_existing_rejected:
  "(load_repositories file = Inr (JList rs)
      \<and> py_get data ''path'' (JStr []) = Inr (JStr s)
      \<and> JStr (server_path env s) \<in> set (stored_paths (JList rs))
    \<longrightarrow> (\<forall>body. fst (add_repository env is_json data file) \<noteq> Success body)
        \<and> snd (add_repository env is_json data file) = file
        \<and> (is_json \<and> py_strip s \<noteq> [] \<and> has_git env (server_path env s)
             \<and> list_all (\<lambda>r. entry_path r \<noteq> None) rs
           \<longrightarrow> fst (add_repository env is_json data file)
                 = Failure 400 ''Repository already in list''))
   \<and> ((if chosen = [] then typed else Some chosen) = Some given
      \<and> JStr (abspath env given) \<in> set (stored_paths (JList rs))
    \<longrightarrow> snd (gui_add_repository env chosen typed (JList rs) file) = (JList rs, file)
        \<and> (given \<noteq> [] \<and> has_git env (abspath env given)
             \<and> list_all (\<lambda>r. entry_path r \<noteq> None) rs
           \<longrightarrow> fst (gui_add_repository env chosen typed (JList rs) file)
                 = Inr [ShowWarning ''Repository already in list.'']))
   \<and> (load_repositories file = Inr (JList rs)
      \<and> py_get data ''paths'' (JList []) = Inr (JList (map JStr ss))
      \<and> (\<forall>t \<in> set ss. JStr (server_path env t) \<in> set (stored_paths (JList rs)))
    \<longrightarrow> (\<exists>errors. batch_add_repositories env is_json data file
                     = (Success (batch_response (JList rs) 0 errors),
                        snd (save_repositories env (JList rs) file)))
        \<or> ((\<forall>body. fst (batch_add_repositories env is_json data file) \<noteq> Success body)
           \<and> snd (batch_add_repositories env is_json data file) = file))"
proof (intro conjI impI; (elim conjE)?)
  assume ld: "load_repositories file = Inr (JList rs)"
    and d: "py_get data ''path'' (JStr []) = Inr (JStr s)"
    and m: "JStr (server_path env s) \<in> set (stored_paths (JList rs))"
  have nf: "any_path_eq rs (JStr (abspath env (expanduser env (py_strip s)))) \<noteq> Inr False"
    using m any_path_eq_not_False [of "server_path env s" rs]
    by (simp add: stored_paths_def server_path_def)
  show "\<forall>body. fst (add_repository env is_json data file) \<noteq> Success body"
    using d ld nf
    by (auto simp: add_repository_def Let_def simp del: save_repositories.simps
             split: sum.splits if_splits prod.splits)
  show "snd (add_repository env is_json data file) = file"
    using d ld nf
    by (auto simp: add_repository_def Let_def simp del: save_repositories.simps
             split: sum.splits if_splits prod.splits)
  assume w: "is_json" "py_strip s \<noteq> []" "has_git env (server_path env s)"
    "list_all (\<lambda>r. entry_path r \<noteq> None) rs"
  then have t: "any_path_eq rs (JStr (abspath env (expanduser env (py_strip s)))) = Inr True"
    using m any_path_eq_True [of rs "server_path env s"]
    by (simp add: stored_paths_def server_path_def)
  from w have "s \<noteq> []" by (auto simp: py_strip_def)
  with d have "\<not> py_falsy data" by (cases data) (auto split: option.splits)
  with w d t ld show "fst (add_repository env is_json data file)
                     = Failure 400 ''Repository already in list''"
    by (simp add: add_repository_def Let_def server_path_def has_git_def)
next
  assume g: "(if chosen = [] then typed else Some chosen) = Some given"
    and m: "JStr (abspath env given) \<in> set (stored_paths (JList rs))"
  have nf: "any_path_eq rs (JStr (abspath env given)) \<noteq> Inr False"
    using m any_path_eq_not_False [of "abspath env given" rs]
    by (simp add: stored_paths_def)
  show "snd (gui_add_repository env chosen typed (JList rs) file) = (JList rs, file)"
    using g nf
    by (auto simp: gui_add_repository_def Let_def simp del: gui_save_repositories.simps
             split: sum.splits if_splits prod.splits option.splits)
  assume w: "given \<noteq> []" "has_git env (abspath env given)"
    "list_all (\<lambda>r. entry_path r \<noteq> None) rs"
  then have t: "any_path_eq rs (JStr (abspath env given)) = Inr True"
    using m any_path_eq_True [of rs "abspath env given"]
    by (simp add: stored_paths_def)
  with w g show "fst (gui_add_repository env chosen typed (JList rs) file)
                     = Inr [ShowWarning ''Repository already in list.'']"
    by (simp add: gui_add_repository_def Let_def has_git_def)
next
  assume ld: "load_repositories file = Inr (JList rs)"
    and p: "py_get data ''paths'' (JList []) = Inr (JList (map JStr ss))"
    and m: "\<forall>t \<in> set ss. JStr (server_path env t) \<in> set (stored_paths (JList rs))"
  show "(\<exists>errors. batch_add_repositories env is_json data file
                       = (Success (batch_response (JList rs) 0 errors),
                          snd (save_repositories env (JList rs) file)))
            \<or> ((\<forall>body. fst (batch_add_repositories env is_json data file) \<noteq> Success body)
               \<and> snd (batch_add_repositories env is_json data file) = file)"
  proof (cases "path_set rs")
    case (Inl e)
    with p ld show ?thesis
      by (auto simp: batch_add_repositories_def simp del: save_repositories.simps)
  next
    case (Inr ex)
    from path_set_eq_stored [OF Inr] m
    have "\<forall>t \<in> set ss. JStr (server_path env t) \<in> ex" by simp
    from batch_loop_nothing_new [OF this, of rs 0 "[]"] obtain errs' where
      l: "batch_loop env (map JStr ss) (JList rs, ex, 0, []) = Inr (JList rs, ex, 0, errs')"
      by blast
    show ?thesis
      using p ld Inr l
      by (cases "write_result env")
         (auto simp: batch_add_repositories_def simp del: batch_loop.simps)
  qed
qed

text \<open>Witness for C5: \<^verbatim>\<open>proj\<close> is stored and is asked for again, as \<^verbatim>\<open>~/proj\<close> and in full.\<close>

theorem add_existing_rejected_witness:
  "load_repositories (Document (JObj [(''repositories'', JList [new_entry ''/home/u/proj''])]))
     = Inr (JList [new_entry ''/home/u/proj''])
   \<and> JStr (server_path sample_env ''~/proj'') \<in> set (stored_paths (JList [new_entry ''/home/u/proj'']))
   \<and> JStr (abspath sample_env ''/home/u/proj'') \<in> set (stored_paths (JList [new_entry ''/home/u/proj'']))
   \<and> list_all (\<lambda>t. JStr (server_path sample_env t)
                     \<in> set (stored_paths (JList [new_entry ''/home/u/proj''])))
         [''~/proj'', ''/home/u/proj'']
   \<and> add_repository sample_env True
         (JObj [(''path'', JStr ''~/proj''), (''paths'', JList (map JStr [''~/proj'', ''/home/u/proj'']))])
         (Document (JObj [(''repositories'', JList [new_entry ''/home/u/proj''])]))
       = (Failure 400 ''Repository already in list'',
          Document (JObj [(''repositories'', JList [new_entry ''/home/u/proj''])]))
   \<and> gui_add_repository sample_env ''/home/u/proj'' None (JList [new_entry ''/home/u/proj''])
         (Document (JObj [(''repositories'', JList [new_entry ''/home/u/proj''])]))
       = (Inr [ShowWarning ''Repository already in list.''], JList [new_entry ''/home/u/proj''],
          Document (JObj [(''repositories'', JList [new_entry ''/home/u/proj''])]))
   \<and> batch_add_repositories sample_env True
         (JObj [(''path'', JStr ''~/proj''), (''paths'', JList (map JStr [''~/proj'', ''/home/u/proj'']))])
         (Document (JObj [(''repositories'', JList [new_entry ''/home/u/proj''])]))
       = (Success (batch_response (JList [new_entry ''/home/u/proj'']) 0 []),
          Document (JObj [(''repositories'', JList [new_entry ''/home/u/proj''])]))"
  using add_existing_rejected
    [of "Document (JObj [(''repositories'', JList [new_entry ''/home/u/proj''])])"
        "[new_entry ''/home/u/proj'']"
        "JObj [(''path'', JStr ''~/proj''), (''paths'', JList (map JStr [''~/proj'', ''/home/u/proj'']))]"
        "''~/proj''" sample_env True "''/home/u/proj''" None "''/home/u/proj''"
        "[''~/proj'', ''/home/u/proj'']"]
  by (simp add: sample_eval add_repository_def gui_add_repository_def batch_add_repositories_def
        server_path_def stored_paths_def entry_path_def List.map_filter_simps has_git_def)

subsection \<open>Batch-add, twice\<close>

text \<open>
  Claim C9, as stated, fails for a stored path that is not (or no longer) a repository:
  the test for \<^verbatim>\<open>.git\<close> comes before the test for membership, so asking for such a path
  again is reported in \<^verbatim>\<open>errors\<close> and not skipped in silence.
\<close>

theorem batch_add_stored_not_git_counterexample:
  "JStr ''/home/u/notes'' \<in> set (stored_paths (JList [new_entry ''/home/u/notes'']))
   \<and> batch_add_repositories sample_env True
         (JObj [(''paths'', JList [JStr ''/home/u/notes''])])
         (Document (JObj [(''repositories'', JList [new_entry ''/home/u/notes''])]))
       = (Success (batch_response (JList [new_entry ''/home/u/notes'']) 0
                     [not_a_git_repository ''/home/u/notes'']),
          Document (JObj [(''repositories'', JList [new_entry ''/home/u/notes''])]))"
  by (simp add: sample_eval batch_add_repositories_def stored_paths_def entry_path_def
        List.map_filter_simps)

text \<open>
  Claim C9, amended. Let the stored list be a list whose set of paths can be built, the
  request carry a list of strings, and the write go through. Then batch-add answers with
  the stored list followed by one new entry for each requested repository that was not
  yet there: the appended paths are pairwise distinct however often a path was requested,
  and none of them was stored before. \<^verbatim>\<open>errors\<close> names the requested paths that are not
  repositories and nothing else, so a stored path that is a repository is skipped in
  silence. The same request once more adds nothing: \<^verbatim>\<open>added\<close> is 0 and the list and the
  file stay.
\<close>

theorem batch_add_once_and_idempotent:
  assumes "load_repositories file = Inr (JList rs)"
      and "path_set rs = Inr existing"
      and "py_get data ''paths'' (JList []) = Inr (JList (map JStr ss))"
      and "\<not> py_falsy data"
      and "write_result env = WriteOk"
  shows "\<exists>new errors.
           batch_add_repositories env True data file
             = (Success (batch_response (JList (rs @ map new_entry new)) (length new) errors),
                Document (JObj [(''repositories'', JList (rs @ map new_entry new))]))
         \<and> distinct new
         \<and> set new = {server_path env s | s. s \<in> set ss \<and> py_strip s \<noteq> []
                                              \<and> has_git env (server_path env s)}
                      - {p. JStr p \<in> existing}
         \<and> errors = map (\<lambda>s. not_a_git_repository (server_path env s))
                       (filter (\<lambda>s. py_strip s \<noteq> [] \<and> \<not> has_git env (server_path env s)) ss)
         \<and> batch_add_repositories env True data
               (Document (JObj [(''repositories'', JList (rs @ map new_entry new))]))
             = (Success (batch_response (JList (rs @ map new_entry new)) 0 errors),
                Document (JObj [(''repositories'', JList (rs @ map new_entry new))]))"
proof -
  let ?errors = "map (\<lambda>s. not_a_git_repository (server_path env s))
                   (filter (\<lambda>s. py_strip s \<noteq> [] \<and> \<not> has_git env (server_path env s)) ss)"
  let ?wanted = "{server_path env s | s. s \<in> set ss \<and> py_strip s \<noteq> []
                                         \<and> has_git env (server_path env s)}"
  from batch_loop_strings [of env ss rs existing 0 "[]"] obtain new where new:
    "batch_loop env (map JStr ss) (JList rs, existing, 0, []) =
       Inr (JList (rs @ map new_entry new), existing \<union> JStr ` set new, length new, ?errors)"
    "distinct new" "set new = ?wanted - {p. JStr p \<in> existing}"
    by auto
  let ?rs' = "rs @ map new_entry new"
  let ?file' = "Document (JObj [(''repositories'', JList ?rs')])"
  have first: "batch_add_repositories env True data file
                 = (Success (batch_response (JList ?rs') (length new) ?errors), ?file')"
    using assms new(1) by (simp add: batch_add_repositories_def del: batch_loop.simps)
  have ps: "path_set ?rs' = Inr (existing \<union> JStr ` set new)"
    using assms(2) by (rule path_set_append_new)
  from batch_loop_strings [of env ss ?rs' "existing \<union> JStr ` set new" 0 "[]"] obtain again where
    again: "batch_loop env (map JStr ss) (JList ?rs', existing \<union> JStr ` set new, 0, []) =
       Inr (JList (?rs' @ map new_entry again), (existing \<union> JStr ` set new) \<union> JStr ` set again,
            length again, ?errors)"
    "set again = ?wanted - {p. JStr p \<in> existing \<union> JStr ` set new}"
    by auto
  have "set again = {}" using again(2) new(3) by auto
  then have "again = []" by simp
  with again(1) have second: "batch_add_repositories env True data ?file'
                 = (Success (batch_response (JList ?rs') 0 ?errors), ?file')"
    using assms(3,4,5) ps by (simp add: batch_add_repositories_def del: batch_loop.simps)
  from first second new(2,3) show ?thesis by blast
qed

text \<open>
  Witness for C9: \<^verbatim>\<open>proj\<close> is stored; \<^verbatim>\<open>work\<close> is requested twice, \<^verbatim>\<open>proj\<close> once, and
  \<^verbatim>\<open>notes\<close>, which is no repository.
\<close>

theorem batch_add_once_and_idempotent_witness:
  "load_repositories (Document (JObj [(''repositories'', JList [new_entry ''/home/u/proj''])]))
     = Inr (JList [new_entry ''/home/u/proj''])
   \<and> path_set [new_entry ''/home/u/proj''] = Inr {JStr ''/home/u/proj''}
   \<and> \<not> py_falsy (JObj [(''paths'', JList (map JStr [''~/work'', '' /home/u/work'', ''~/proj'', ''~/notes'']))])
   \<and> write_result sample_env = WriteOk
   \<and> batch_add_repositories sample_env True
         (JObj [(''paths'', JList (map JStr [''~/work'', '' /home/u/work'', ''~/proj'', ''~/notes'']))])
         (Document (JObj [(''repositories'', JList [new_entry ''/home/u/proj''])]))
       = (Success (batch_response (JList [new_entry ''/home/u/proj'', new_entry ''/home/u/work''])
                     1 [not_a_git_repository ''/home/u/notes'']),
          Document (JObj [(''repositories'',
                           JList [new_entry ''/home/u/proj'', new_entry ''/home/u/work''])]))
   \<and> batch_add_repositories sample_env True
         (JObj [(''paths'', JList (map JStr [''~/work'', '' /home/u/work'', ''~/proj'', ''~/notes'']))])
         (Document (JObj [(''repositories'',
                          JList [new_entry ''/home/u/proj'', new_entry ''/home/u/work''])]))
       = (Success (batch_response (JList [new_entry ''/home/u/proj'', new_entry ''/home/u/work''])
                     0 [not_a_git_repository ''/home/u/notes'']),
          Document (JObj [(''repositories'',
                           JList [new_entry ''/home/u/proj'', new_entry ''/home/u/work''])]))"
  using batch_add_once_and_idempotent
    [of "Document (JObj [(''repositories'', JList [new_entry ''/home/u/proj''])])"
        "[new_entry ''/home/u/proj'']" "{JStr ''/home/u/proj''}"
        "JObj [(''paths'', JList (map JStr [''~/work'', '' /home/u/work'', ''~/proj'', ''~/notes'']))]"
        "[''~/work'', '' /home/u/work'', ''~/proj'', ''~/notes'']" sample_env]
  by (simp add: sample_eval batch_add_repositories_def)

subsection \<open>Removing a path that is not there\<close>

lemma filter_path_ne_same:
  "no_entry_matches rs path
   \<Longrightarrow> filter_path_ne rs path = Inr rs"
  by (induction rs) (auto simp: no_entry_matches_def split: sum.splits)

lemma gui_remove_loop_same:
  "list_all (\<lambda>p. no_entry_matches rs (JStr p)) selected_paths
   \<Longrightarrow> gui_remove_loop selected_paths (JList rs) = (None, JList rs)"
proof (induction selected_paths)
  case Nil
  then show ?case by simp
next
  case (Cons p ps)
  then have "filter_path_ne rs (JStr p) = Inr rs"
    by (intro filter_path_ne_same) simp
  with Cons show ?case by simp
qed

text \<open>
  Claim C8, as stated, fails for the empty path: it matches no entry, and the DELETE
  endpoint answers with the error \<^verbatim>\<open>Path is required\<close> instead of the list.
\<close>

theorem remove_empty_path_counterexample:
  "py_get (JObj [(''path'', JStr [])]) ''path'' (JStr []) = Inr (JStr [])
   \<and> no_entry_matches [new_entry ''/home/u/proj''] (JStr [])
   \<and> remove_repository sample_env (JObj [(''path'', JStr [])])
         (Document (JObj [(''repositories'', JList [new_entry ''/home/u/proj''])]))
       = (Failure 400 ''Path is required'',
          Document (JObj [(''repositories'', JList [new_entry ''/home/u/proj''])]))"
  by (simp add: remove_repository_def no_entry_matches_def new_entry_def)

text \<open>
  Claim C8, amended. For a path that is not empty (not falsy) and that no entry of the
  stored list has, the DELETE endpoint answers with the unchanged list and saves that same
  list again, provided the configuration directory can be made; the list read back is the
  same unless the write broke off. The GUI's removal, for selected paths that no entry
  has, leaves its list as it is and saves it.
\<close>

theorem remove_absent_path_unchanged:
  "(py_get data ''path'' (JStr []) = Inr path \<and> \<not> py_falsy path
      \<and> load_repositories file = Inr (JList rs)
      \<and> no_entry_matches rs path
      \<and> write_result env \<noteq> MkdirFails
    \<longrightarrow> remove_repository env data file
          = (Success (JObj [(''repositories'', JList rs)]),
             snd (save_repositories env (JList rs) file))
        \<and> (write_result env \<noteq> DumpFails
           \<longrightarrow> load_repositories (snd (remove_repository env data file)) = Inr (JList rs)))
   \<and> (selected_paths \<noteq> []
      \<and> list_all (\<lambda>p. no_entry_matches rs (JStr p)) selected_paths
    \<longrightarrow> gui_remove_repository env selected_paths (JList rs) file
          = (fst (gui_save_repositories env (JList rs) file), JList rs,
             snd (gui_save_repositories env (JList rs) file)))"
proof (intro conjI impI; (elim conjE)?)
  assume a: "py_get data ''path'' (JStr []) = Inr path" "\<not> py_falsy path"
    "load_repositories file = Inr (JList rs)"
    "no_entry_matches rs path"
    "write_result env \<noteq> MkdirFails"
  from a(4) have f: "filter_path_ne rs path = Inr rs" by (rule filter_path_ne_same)
  show r: "remove_repository env data file
          = (Success (JObj [(''repositories'', JList rs)]),
             snd (save_repositories env (JList rs) file))"
    using a f by (cases "write_result env") (simp_all add: remove_repository_def)
  assume "write_result env \<noteq> DumpFails"
  with a(3,5) show "load_repositories (snd (remove_repository env data file)) = Inr (JList rs)"
    unfolding r by (cases "write_result env") simp_all
next
  assume a: "selected_paths \<noteq> []"
    "list_all (\<lambda>p. no_entry_matches rs (JStr p)) selected_paths"
  from gui_remove_loop_same [OF a(2)] a(1)
  show "gui_remove_repository env selected_paths (JList rs) file
          = (fst (gui_save_repositories env (JList rs) file), JList rs,
             snd (gui_save_repositories env (JList rs) file))"
    by (simp add: gui_remove_repository_def del: gui_save_repositories.simps split: prod.splits)
qed

text \<open>Witness for C8: \<^verbatim>\<open>proj\<close> is stored, \<^verbatim>\<open>work\<close> is to be removed.\<close>

theorem remove_absent_path_unchanged_witness:
  "py_get (JObj [(''path'', JStr ''/home/u/work'')]) ''path'' (JStr []) = Inr (JStr ''/home/u/work'')
   \<and> \<not> py_falsy (JStr ''/home/u/work'')
   \<and> no_entry_matches [new_entry ''/home/u/proj''] (JStr ''/home/u/work'')
   \<and> write_result sample_env \<noteq> MkdirFails \<and> write_result sample_env \<noteq> DumpFails
   \<and> [''/home/u/work''] \<noteq> []
   \<and> list_all (\<lambda>p. no_entry_matches [new_entry ''/home/u/proj''] (JStr p)) [''/home/u/work'']
   \<and> remove_repository sample_env (JObj [(''path'', JStr ''/home/u/work'')])
         (Document (JObj [(''repositories'', JList [new_entry ''/home/u/proj''])]))
       = (Success (JObj [(''repositories'', JList [new_entry ''/home/u/proj''])]),
          Document (JObj [(''repositories'', JList [new_entry ''/home/u/proj''])]))
   \<and> gui_remove_repository sample_env [''/home/u/work''] (JList [new_entry ''/home/u/proj''])
         (Document (JObj [(''repositories'', JList [new_entry ''/home/u/proj''])]))
       = (Inr [], JList [new_entry ''/home/u/proj''],
          Document (JObj [(''repositories'', JList [new_entry ''/home/u/proj''])]))"
  using remove_absent_path_unchanged
    [of "JObj [(''path'', JStr ''/home/u/work'')]" "JStr ''/home/u/work''"
        "Document (JObj [(''repositories'', JList [new_entry ''/home/u/proj''])])"
        "[new_entry ''/home/u/proj'']" sample_env "[''/home/u/work'']"]
  by (simp add: sample_eval no_entry_matches_def)

subsection \<open>startWork and stopWork over a batch\<close>

text \<open>
  A batch on which every run ends or times out is worked through to its last path, and
  its answer is determined path by path; a missing command ends it on the spot.
\<close>

lemma work_loop_all:
  "list_all (runs_or_times_out env cmd) ps \<Longrightarrow>
   work_loop env cmd (map JStr ps) results errors
     = (Success (work_response (results @ filter (succeeded env cmd) ps)
                   (errors @ List.map_filter (error_line env cmd) ps)),
        attempts cmd ps)"
proof (induction ps arbitrary: results errors)
  case Nil
  show ?case by (simp add: attempts_def)
next
  case (Cons p ps)
  then have rest: "list_all (runs_or_times_out env cmd) ps" by simp
  from Cons.prems consider (exited) rc err where "run env [cmd_name cmd, p] = Exited rc err"
    | (timeout) "run env [cmd_name cmd, p] = TimeoutExpired"
    by (auto simp: runs_or_times_out_def split: run_outcome.splits)
  then show ?case
  proof cases
    case exited
    then have "succeeded env cmd p = (rc = 0)"
      "error_line env cmd p = (if rc \<noteq> 0 then Some (p @ '': '' @ err) else None)"
      by (simp_all add: succeeded_def error_line_def)
    with exited show ?thesis
      using Cons.IH [OF rest] by (simp add: attempts_def)
  next
    case timeout
    then have "\<not> succeeded env cmd p" "error_line env cmd p = Some (p @ '': Timeout'')"
      by (simp_all add: succeeded_def error_line_def)
    with timeout show ?thesis
      using Cons.IH [OF rest] by (simp add: attempts_def)
  qed
qed

lemma work_loop_not_found:
  "list_all (runs_or_times_out env cmd) pre \<Longrightarrow> run env [cmd_name cmd, p] = FileNotFound \<Longrightarrow>
   work_loop env cmd (map JStr (pre @ p # post)) results errors
     = (Failure 500 (command_not_found (cmd_name cmd)), attempts cmd (pre @ [p]))"
proof (induction pre arbitrary: results errors)
  case Nil
  then show ?case by (simp add: attempts_def)
next
  case (Cons q pre)
  then show ?case
    by (auto simp: attempts_def runs_or_times_out_def split: run_outcome.splits)
qed

lemma gui_work_loop_all:
  "list_all (runs_or_times_out env cmd) ps \<Longrightarrow>
   gui_work_loop env cmd (map JStr ps)
     = (List.map_filter (error_dialog env cmd) ps, Finished, attempts cmd ps)"
proof (induction ps)
  case Nil
  show ?case by (simp add: attempts_def)
next
  case (Cons p ps)
  then have ih: "gui_work_loop env cmd (map JStr ps)
     = (List.map_filter (error_dialog env cmd) ps, Finished, attempts cmd ps)" by simp
  from Cons.prems consider (exited) rc err where "run env [cmd_name cmd, p] = Exited rc err"
    | (timeout) "run env [cmd_name cmd, p] = TimeoutExpired"
    by (auto simp: runs_or_times_out_def split: run_outcome.splits)
  then show ?case
  proof cases
    case exited
    then have "error_dialog env cmd p
                 = (if rc \<noteq> 0 then Some (ShowError (gui_failed cmd p err)) else None)"
      by (simp add: error_dialog_def)
    with exited ih show ?thesis
      by (simp add: attempts_def del: gui_failed.simps)
  next
    case timeout
    then have "error_dialog env cmd p = Some (ShowError (gui_timeout cmd p))"
      by (simp add: error_dialog_def)
    with timeout ih show ?thesis
      by (simp add: attempts_def del: gui_timeout.simps)
  qed
qed

lemma gui_work_loop_not_found:
  "list_all (runs_or_times_out env cmd) pre \<Longrightarrow> run env [cmd_name cmd, p] = FileNotFound \<Longrightarrow>
   gui_work_loop env cmd (map JStr (pre @ p # post))
     = (List.map_filter (error_dialog env cmd) pre @ [ShowError (command_not_found (cmd_name cmd))],
        Returned, attempts cmd (pre @ [p]))"
proof (induction pre)
  case Nil
  then show ?case by (simp add: attempts_def)
next
  case (Cons q pre)
  then have ih: "gui_work_loop env cmd (map JStr (pre @ p # post))
     = (List.map_filter (error_dialog env cmd) pre @ [ShowError (command_not_found (cmd_name cmd))],
        Returned, attempts cmd (pre @ [p]))" by simp
  from Cons.prems consider (exited) rc err where "run env [cmd_name cmd, q] = Exited rc err"
    | (timeout) "run env [cmd_name cmd, q] = TimeoutExpired"
    by (auto simp: runs_or_times_out_def split: run_outcome.splits)
  then show ?case
  proof cases
    case exited
    then have "error_dialog env cmd q
                 = (if rc \<noteq> 0 then Some (ShowError (gui_failed cmd q err)) else None)"
      by (simp add: error_dialog_def)
    with exited ih show ?thesis
      by (simp add: attempts_def del: gui_failed.simps)
  next
    case timeout
    then have "error_dialog env cmd q = Some (ShowError (gui_timeout cmd q))"
      by (simp add: error_dialog_def)
    with timeout ih show ?thesis
      by (simp add: attempts_def del: gui_timeout.simps)
  qed
qed

lemma timeouts_in_error_lines:
  "list_all (\<lambda>p. timed_out env cmd p \<longrightarrow>
                    p @ '': Timeout'' \<in> set (List.map_filter (error_line env cmd) ps)) ps"
  by (auto simp: list_all_iff List.map_filter_def timed_out_def error_line_def image_iff
           intro!: bexI)

lemma timeouts_in_error_dialogs:
  "list_all (\<lambda>p. timed_out env cmd p \<longrightarrow>
                    ShowError (gui_timeout cmd p) \<in> set (List.map_filter (error_dialog env cmd) ps)) ps"
  by (auto simp: list_all_iff List.map_filter_def timed_out_def error_dialog_def image_iff
           simp del: gui_timeout.simps intro!: bexI)

text \<open>
  Claim C2, as stated, fails for a missing command: the first FileNotFoundError ends the
  batch, in the server (one 500 answer) and in the GUI (one dialog), and the second
  repository is never attempted.
\<close>

theorem missing_command_stops_batch_counterexample:
  "run missing_env [''startWork'', ''/home/u/proj''] = FileNotFound
   \<and> start_work missing_env
       (JObj [(''repositories'', JList [JStr ''/home/u/proj'', JStr ''/home/u/work''])])
     = (Failure 500 (command_not_found ''startWork''), [[''startWork'', ''/home/u/proj'']])
   \<and> [''startWork'', ''/home/u/work'']
       \<notin> set (snd (start_work missing_env
                      (JObj [(''repositories'', JList [JStr ''/home/u/proj'', JStr ''/home/u/work''])])))
   \<and> gui_start_work missing_env
       (JList [JObj [(''path'', JStr ''/home/u/proj''), (''selected'', JBool True)],
               JObj [(''path'', JStr ''/home/u/work''), (''selected'', JBool True)]])
     = ([ShowError (command_not_found ''startWork'')], Returned, [[''startWork'', ''/home/u/proj'']])"
  by (simp add: start_work_def server_work_def gui_start_work_def gui_work_def
        get_selected_repositories_def missing_env_def sample_env_def)

text \<open>
  Claim C2, amended; \<open>server_work\<close> and \<open>gui_work\<close> are \<^verbatim>\<open>start_work\<close> and \<^verbatim>\<open>stop_work\<close>
  for the two values of \<open>cmd\<close> (the last four conjuncts). For a non-empty batch of paths
  on which every run ends or times out, the command is attempted for every path in order
  and every time-out is reported: the server's answer holds under \<^verbatim>\<open>results\<close> exactly the
  paths whose run returned 0 and under \<^verbatim>\<open>errors\<close> exactly one line for each other path,
  \<^verbatim>\<open>path: Timeout\<close> for a time-out; the GUI shows exactly one error dialog for each such
  path, then the closing message. When the command is missing at some path, after runs
  that ended or timed out, the failure is reported once (a 500 answer; in the GUI one
  dialog after those of the paths before) and the paths after it are not attempted.
\<close>

theorem work_batch_timeout_continues:
  "(ps \<noteq> []
      \<and> py_get data ''repositories'' (JList []) = Inr (JList (map JStr ps))
      \<and> list_all (runs_or_times_out env cmd) ps
    \<longrightarrow> server_work env cmd data
          = (Success (work_response (filter (succeeded env cmd) ps)
                        (List.map_filter (error_line env cmd) ps)),
             attempts cmd ps)
        \<and> list_all (\<lambda>p. timed_out env cmd p \<longrightarrow>
                           p @ '': Timeout'' \<in> set (List.map_filter (error_line env cmd) ps)) ps)
   \<and> (py_get data ''repositories'' (JList []) = Inr (JList (map JStr (pre @ p # post)))
      \<and> list_all (runs_or_times_out env cmd) pre
      \<and> run env [cmd_name cmd, p] = FileNotFound
    \<longrightarrow> server_work env cmd data
          = (Failure 500 (command_not_found (cmd_name cmd)), attempts cmd (pre @ [p])))
   \<and> (ps \<noteq> []
      \<and> get_selected_repositories repositories = Inr (map JStr ps)
      \<and> list_all (runs_or_times_out env cmd) ps
    \<longrightarrow> gui_work env cmd repositories
          = (List.map_filter (error_dialog env cmd) ps @ [ShowInfo (gui_done cmd (length ps))],
             Finished, attempts cmd ps)
        \<and> list_all (\<lambda>p. timed_out env cmd p \<longrightarrow>
                           ShowError (gui_timeout cmd p)
                             \<in> set (List.map_filter (error_dialog env cmd) ps)) ps)
   \<and> (get_selected_repositories repositories = Inr (map JStr (pre @ p # post))
      \<and> list_all (runs_or_times_out env cmd) pre
      \<and> run env [cmd_name cmd, p] = FileNotFound
    \<longrightarrow> gui_work env cmd repositories
          = (List.map_filter (error_dialog env cmd) pre
               @ [ShowError (command_not_found (cmd_name cmd))],
             Returned, attempts cmd (pre @ [p])))
   \<and> start_work env data = server_work env StartWork data
   \<and> stop_work env data = server_work env StopWork data
   \<and> gui_start_work env repositories = gui_work env StartWork repositories
   \<and> gui_stop_work env repositories = gui_work env StopWork repositories"
proof (intro conjI impI; (elim conjE)?)
  assume a: "ps \<noteq> []" "py_get data ''repositories'' (JList []) = Inr (JList (map JStr ps))"
    "list_all (runs_or_times_out env cmd) ps"
  have "server_work env cmd data = work_loop env cmd (map JStr ps) [] []"
    using a(1,2) by (simp add: server_work_def del: work_loop.simps)
  with work_loop_all [OF a(3), of "[]" "[]"]
  show "server_work env cmd data
          = (Success (work_response (filter (succeeded env cmd) ps)
                        (List.map_filter (error_line env cmd) ps)),
             attempts cmd ps)"
    by simp
  show "list_all (\<lambda>p. timed_out env cmd p \<longrightarrow>
                           p @ '': Timeout'' \<in> set (List.map_filter (error_line env cmd) ps)) ps"
    by (rule timeouts_in_error_lines)
next
  assume a: "py_get data ''repositories'' (JList []) = Inr (JList (map JStr (pre @ p # post)))"
    "list_all (runs_or_times_out env cmd) pre" "run env [cmd_name cmd, p] = FileNotFound"
  have "server_work env cmd data = work_loop env cmd (map JStr (pre @ p # post)) [] []"
    using a(1) by (simp add: server_work_def del: work_loop.simps)
  with work_loop_not_found [OF a(2,3)]
  show "server_work env cmd data
          = (Failure 500 (command_not_found (cmd_name cmd)), attempts cmd (pre @ [p]))"
    by simp
next
  assume a: "ps \<noteq> []" "get_selected_repositories repositories = Inr (map JStr ps)"
    "list_all (runs_or_times_out env cmd) ps"
  from gui_work_loop_all [OF a(3)] a(1,2)
  show "gui_work env cmd repositories
          = (List.map_filter (error_dialog env cmd) ps @ [ShowInfo (gui_done cmd (length ps))],
             Finished, attempts cmd ps)"
    by (simp add: gui_work_def del: gui_work_loop.simps gui_done.simps)
  show "list_all (\<lambda>p. timed_out env cmd p \<longrightarrow>
                           ShowError (gui_timeout cmd p)
                             \<in> set (List.map_filter (error_dialog env cmd) ps)) ps"
    by (rule timeouts_in_error_dialogs)
next
  assume a: "get_selected_repositories repositories = Inr (map JStr (pre @ p # post))"
    "list_all (runs_or_times_out env cmd) pre" "run env [cmd_name cmd, p] = FileNotFound"
  from gui_work_loop_not_found [OF a(2,3), of post] a(1)
  show "gui_work env cmd repositories
          = (List.map_filter (error_dialog env cmd) pre
               @ [ShowError (command_not_found (cmd_name cmd))],
             Returned, attempts cmd (pre @ [p]))"
    by (simp add: gui_work_def del: gui_work_loop.simps)
qed (simp_all add: start_work_def stop_work_def gui_start_work_def gui_stop_work_def)

text \<open>
  Witness for C2: \<^verbatim>\<open>startWork\<close> hangs for \<^verbatim>\<open>proj\<close>, fails for \<^verbatim>\<open>notes\<close> and is still run
  for \<^verbatim>\<open>work\<close>.
\<close>

theorem work_batch_timeout_continues_witness:
  "[''/home/u/proj'', ''/home/u/notes'', ''/home/u/work''] \<noteq> []
   \<and> py_get (JObj [(''repositories'',
                     JList (map JStr [''/home/u/proj'', ''/home/u/notes'', ''/home/u/work'']))])
        ''repositories'' (JList [])
       = Inr (JList (map JStr [''/home/u/proj'', ''/home/u/notes'', ''/home/u/work'']))
   \<and> list_all (runs_or_times_out slow_env StartWork)
        [''/home/u/proj'', ''/home/u/notes'', ''/home/u/work'']
   \<and> timed_out slow_env StartWork ''/home/u/proj''
   \<and> start_work slow_env
        (JObj [(''repositories'',
                JList (map JStr [''/home/u/proj'', ''/home/u/notes'', ''/home/u/work'']))])
      = (Success (work_response [''/home/u/work'']
                    [''/home/u/proj: Timeout'', ''/home/u/notes: not a git repository'']),
         [[''startWork'', ''/home/u/proj''], [''startWork'', ''/home/u/notes''],
          [''startWork'', ''/home/u/work'']])"
  using work_batch_timeout_continues
    [of "[''/home/u/proj'', ''/home/u/notes'', ''/home/u/work'']"
        "JObj [(''repositories'',
                JList (map JStr [''/home/u/proj'', ''/home/u/notes'', ''/home/u/work'']))]"
        slow_env StartWork]
  by (simp add: slow_env_def sample_env_def runs_or_times_out_def timed_out_def
        succeeded_def error_line_def attempts_def)

subsection \<open>tabulateWork and its dates\<close>

text \<open>The equations that evaluate the sample machine's date parser.\<close>

lemmas strptime_eval =
  sample_strptime_ok_def is_digit_def days_in_month_def Let_def

text \<open>
  Claim C4, as stated, fails twice. The server looks at the selection before the dates:
  with nothing selected a bad date is answered \<^verbatim>\<open>No repositories selected\<close>, not with the
  invalid-date error. The GUI strips the entries before parsing them: an entry with a
  leading blank does not parse as it stands, and the command is run all the same.
\<close>

theorem tabulate_date_counterexample:
  "\<not> strptime_ok sample_env ''tomorrow''
   \<and> tabulate_work sample_env
        (JObj [(''repositories'', JList []), (''startDate'', JStr ''tomorrow''),
               (''endDate'', JStr ''2024-01-31''), (''outputFile'', JStr ''~/report.csv'')])
      = (Failure 400 ''No repositories selected'', [])
   \<and> ''No repositories selected'' \<noteq> invalid_date_format
   \<and> \<not> strptime_ok sample_env '' 2024-01-01''
   \<and> gui_tabulate_work sample_env
        (JList [JObj [(''path'', JStr ''/home/u/proj''), (''selected'', JBool True)]])
        '' 2024-01-01'' ''2024-01-31'' ''/home/u/report.csv''
      = ([ShowInfo ''Work report saved to /home/u/report.csv''], Finished,
         [[''tabulateWork'', ''-o'', ''/home/u/report.csv'', ''2024-01-01'', ''2024-01-31'',
           ''/home/u/proj'']])"
  by (simp add: tabulate_work_def gui_tabulate_work_def validate_dates_def
        get_selected_repositories_def tabulate_cmd_def invalid_date_format_def
        sample_env_def strptime_eval py_strip_def is_space_def)

text \<open>
  Claim C4, amended. Server: when one of the two date strings of the request does not
  parse, no command is run and the answer is a 400 error; it is the invalid-date error
  when something is selected and neither string is empty. GUI: when one of the two
  entries, stripped of surrounding white space, does not parse, no command is run and the
  callback does not run to its end; with a selection, the invalid-date dialog is shown.
  Hence a command is run only when both dates parse (stripped, in the GUI).
\<close>

theorem tabulate_needs_valid_dates:
  "(py_get data ''startDate'' (JStr []) = Inr (JStr s)
      \<and> py_get data ''endDate'' (JStr []) = Inr (JStr e)
      \<and> (\<not> strptime_ok env s \<or> \<not> strptime_ok env e)
    \<longrightarrow> snd (tabulate_work env data) = []
        \<and> (\<exists>msg. fst (tabulate_work env data) = Failure 400 msg)
        \<and> (py_get data ''repositories'' (JList []) = Inr repositories
             \<and> \<not> py_falsy repositories \<and> s \<noteq> [] \<and> e \<noteq> []
           \<longrightarrow> fst (tabulate_work env data) = Failure 400 invalid_date_format))
   \<and> (\<not> strptime_ok env (py_strip start_entry) \<or> \<not> strptime_ok env (py_strip end_entry)
    \<longrightarrow> snd (snd (gui_tabulate_work env gui_repositories start_entry end_entry save_as)) = []
        \<and> fst (snd (gui_tabulate_work env gui_repositories start_entry end_entry save_as))
            \<noteq> Finished
        \<and> (get_selected_repositories gui_repositories = Inr selected \<and> selected \<noteq> []
           \<longrightarrow> gui_tabulate_work env gui_repositories start_entry end_entry save_as
                 = ([ShowError invalid_date_format], Returned, [])))"
proof (intro conjI impI; (elim conjE)?)
  assume a: "py_get data ''startDate'' (JStr []) = Inr (JStr s)"
    "py_get data ''endDate'' (JStr []) = Inr (JStr e)"
    "\<not> strptime_ok env s \<or> \<not> strptime_ok env e"
  then obtain kvs where d: "data = JObj kvs" by (cases data) auto
  show "snd (tabulate_work env data) = []"
    using a unfolding d
    by (auto simp: tabulate_work_def)
  show "\<exists>msg. fst (tabulate_work env data) = Failure 400 msg"
    using a unfolding d
    by (auto simp: tabulate_work_def)
  assume "py_get data ''repositories'' (JList []) = Inr repositories"
    "\<not> py_falsy repositories" "s \<noteq> []" "e \<noteq> []"
  with a show "fst (tabulate_work env data) = Failure 400 invalid_date_format"
    unfolding d by (auto simp: tabulate_work_def)
next
  assume a: "\<not> strptime_ok env (py_strip start_entry) \<or> \<not> strptime_ok env (py_strip end_entry)"
  show "snd (snd (gui_tabulate_work env gui_repositories start_entry end_entry save_as)) = []"
    using a by (auto simp: gui_tabulate_work_def validate_dates_def Let_def split: sum.splits)
  show "fst (snd (gui_tabulate_work env gui_repositories start_entry end_entry save_as)) \<noteq> Finished"
    using a by (auto simp: gui_tabulate_work_def validate_dates_def Let_def split: sum.splits)
  assume "get_selected_repositories gui_repositories = Inr selected" "selected \<noteq> []"
  with a show "gui_tabulate_work env gui_repositories start_entry end_entry save_as
                 = ([ShowError invalid_date_format], Returned, [])"
    by (auto simp: gui_tabulate_work_def validate_dates_def Let_def)
qed

text \<open>Witness for C4: the 30th of February, for the server and for the GUI.\<close>

theorem tabulate_needs_valid_dates_witness:
  "py_get (JObj [(''repositories'', JList [JStr ''/home/u/proj'']), (''startDate'', JStr ''2024-02-30''),
               (''endDate'', JStr ''2024-03-01''), (''outputFile'', JStr ''~/report.csv'')])
      ''startDate'' (JStr []) = Inr (JStr ''2024-02-30'')
   \<and> \<not> strptime_ok sample_env ''2024-02-30''
   \<and> \<not> strptime_ok sample_env (py_strip '' 2024-02-30 '')
   \<and> tabulate_work sample_env
        (JObj [(''repositories'', JList [JStr ''/home/u/proj'']), (''startDate'', JStr ''2024-02-30''),
               (''endDate'', JStr ''2024-03-01''), (''outputFile'', JStr ''~/report.csv'')])
      = (Failure 400 invalid_date_format, [])
   \<and> gui_tabulate_work sample_env
        (JList [JObj [(''path'', JStr ''/home/u/proj''), (''selected'', JBool True)]])
        '' 2024-02-30 '' ''2024-03-01'' ''/home/u/report.csv''
      = ([ShowError invalid_date_format], Returned, [])"
  using tabulate_needs_valid_dates
    [of "JObj [(''repositories'', JList [JStr ''/home/u/proj'']), (''startDate'', JStr ''2024-02-30''),
               (''endDate'', JStr ''2024-03-01''), (''outputFile'', JStr ''~/report.csv'')]"
        "''2024-02-30''" "''2024-03-01''" sample_env "JList [JStr ''/home/u/proj'']"
        "'' 2024-02-30 ''" "''2024-03-01''"
        "JList [JObj [(''path'', JStr ''/home/u/proj''), (''selected'', JBool True)]]"
        "''/home/u/report.csv''" "[JStr ''/home/u/proj'']"]
  by (simp add: sample_env_def strptime_eval prod_eq_iff py_strip_def is_space_def
        get_selected_repositories_def)

subsection \<open>The single-instance guard\<close>

text \<open>
  Claim C7. When \<^verbatim>\<open>__enter__\<close> runs while the lock is held (and the directory exists or
  can be made), the process shows the already-running notification and exits with code 1
  right after it: the GUI an error box titled \<^verbatim>\<open>Already Running\<close> that says
  \<^verbatim>\<open>monitorWork.py is already running.\<close>, the server the printed line
  \<^verbatim>\<open>Error: monitorWork_server.py is already running.\<close> and the hint to remove the lock
  file. The lock is asked for at most once (not at all when the file cannot be opened)
  and stays with its holder.
\<close>

theorem enter_held_lock_exits:
  "holder lf = Some other \<and> mkdir_ok os
   \<longrightarrow> enter Gui os lock_path pid lf
        = (Exits 1,
           [Mkdir, OpenForWriting] @ (if open_ok os then [Flock] else [])
             @ [Notify [''Already Running'',
                        ''monitorWork.py is already running.'' @ [CHR 0x0A]
                          @ ''Only one instance can run at a time.''],
                SysExit 1],
           (if open_ok os then lf\<lparr>pid_text := []\<rparr> else lf))
      \<and> enter Server os lock_path pid lf
        = (Exits 1,
           [Mkdir, OpenForWriting] @ (if open_ok os then [Flock] else [])
             @ [Notify [''Error: monitorWork_server.py is already running.'',
                        ''Check if another instance is running or remove '' @ lock_path],
                SysExit 1],
           (if open_ok os then lf\<lparr>pid_text := []\<rparr> else lf))
      \<and> enter fe os lock_path pid lf
        = (Exits 1,
           [Mkdir, OpenForWriting] @ (if open_ok os then [Flock] else [])
             @ [Notify (already_running fe lock_path), SysExit 1],
           (if open_ok os then lf\<lparr>pid_text := []\<rparr> else lf))
      \<and> length (filter (\<lambda>ev. ev = Flock) (fst (snd (enter fe os lock_path pid lf)))) \<le> 1
      \<and> holder (snd (snd (enter fe os lock_path pid lf))) = Some other"
  by (simp add: enter_def Let_def)

text \<open>Witness for C7: process 5000 starts a front-end while process 4242 holds the lock.\<close>

theorem enter_held_lock_exits_witness:
  "holder \<lparr>holder = Some 4242, pid_text = ''4242''\<rparr> = Some 4242
   \<and> mkdir_ok \<lparr>mkdir_ok = True, open_ok = True, write_ok = True\<rparr>
   \<and> enter Server \<lparr>mkdir_ok = True, open_ok = True, write_ok = True\<rparr>
        ''/home/u/.workmonitor/monitorWork_server.lock'' 5000
        \<lparr>holder = Some 4242, pid_text = ''4242''\<rparr>
      = (Exits 1,
         [Mkdir, OpenForWriting, Flock,
          Notify [''Error: monitorWork_server.py is already running.'',
                  ''Check if another instance is running or remove /home/u/.workmonitor/monitorWork_server.lock''],
          SysExit 1],
         \<lparr>holder = Some 4242, pid_text = []\<rparr>)
   \<and> enter Gui \<lparr>mkdir_ok = True, open_ok = True, write_ok = True\<rparr>
        ''/home/u/.workmonitor/monitorWork_server.lock'' 5000
        \<lparr>holder = Some 4242, pid_text = ''4242''\<rparr>
      = (Exits 1,
         [Mkdir, OpenForWriting, Flock,
          Notify [''Already Running'',
                  ''monitorWork.py is already running.'' @ [CHR 0x0A]
                    @ ''Only one instance can run at a time.''],
          SysExit 1],
         \<lparr>holder = Some 4242, pid_text = []\<rparr>)"
  using enter_held_lock_exits
    [of "\<lparr>holder = Some 4242, pid_text = ''4242''\<rparr>" 4242
        "\<lparr>mkdir_ok = True, open_ok = True, write_ok = True\<rparr>"
        "''/home/u/.workmonitor/monitorWork_server.lock''" 5000 Server]
  by simp

subsection \<open>Scanning outside the home directory\<close>

text \<open>
  Claim C10, as stated, fails for the empty folder path: on the sample machine its
  absolute form is the working directory \<^verbatim>\<open>/srv/app\<close>, outside the home directory, and the
  answer is the 400 error \<^verbatim>\<open>Folder path is required\<close>, not 403.
\<close>

theorem scan_blank_path_counterexample:
  "take (length (home sample_env)) (abspath sample_env (expanduser sample_env [])) \<noteq> home sample_env
   \<and> scan_repositories sample_env True (JObj [(''folderPath'', JStr [])])
       = (Failure 400 ''Folder path is required'', [])"
  by (simp add: scan_repositories_def sample_env_def py_strip_def)

text \<open>
  Claim C10, amended. For a JSON request whose folder path is a string that is not blank
  and whose absolute, user-expanded form (of the stripped string) does not start with the
  home directory, the answer is the 403 access-denied error and no directory is listed.
\<close>

theorem scan_outside_home_denied:
  "is_json
   \<and> py_get data ''folderPath'' (JStr []) = Inr (JStr raw)
   \<and> py_strip raw \<noteq> []
   \<and> take (length (home env)) (server_path env raw) \<noteq> home env
   \<longrightarrow> scan_repositories env is_json data = (Failure 403 access_denied, [])"
proof (intro impI; elim conjE)
  assume a: is_json "py_get data ''folderPath'' (JStr []) = Inr (JStr raw)"
    "py_strip raw \<noteq> []" "take (length (home env)) (server_path env raw) \<noteq> home env"
  from a(3) have "raw \<noteq> []" by (auto simp: py_strip_def)
  with a(2) have "\<not> py_falsy data" by (cases data) (auto split: option.splits)
  with a show "scan_repositories env is_json data = (Failure 403 access_denied, [])"
    by (simp add: scan_repositories_def server_path_def Let_def)
qed

text \<open>Witness for C10: the working directory of the sample machine is asked for.\<close>

theorem scan_outside_home_denied_witness:
  "py_get (JObj [(''folderPath'', JStr '' /srv/app'')]) ''folderPath'' (JStr []) = Inr (JStr '' /srv/app'')
   \<and> py_strip '' /srv/app'' \<noteq> []
   \<and> take (length (home sample_env)) (server_path sample_env '' /srv/app'') \<noteq> home sample_env
   \<and> scan_repositories sample_env True (JObj [(''folderPath'', JStr '' /srv/app'')])
       = (Failure 403 access_denied, [])"
  using scan_outside_home_denied
    [of True "JObj [(''folderPath'', JStr '' /srv/app'')]" "'' /srv/app''" sample_env]
  by (simp add: sample_env_def server_path_def py_strip_def is_space_def)

end
